theory Spec2Isabelle
  imports Main "HOL-Library.Sublist"
begin

section \<open>Python strings and values\<close>

text \<open>
  A Python \<open>str\<close> is a sequence of Unicode code points, so it is modelled as a list of
  natural numbers (\<open>char\<close> has only 256 values and could not hold the emoji of the
  section headers). \<open>lit\<close> turns an ASCII literal of the source into its code points.
\<close>

type_synonym pystr = "nat list"

definition lit :: "string \<Rightarrow> pystr" where
  "lit s = map of_char s"

text \<open>
  The parsed form of a config file or manifest document, as \<open>hcl2.loads\<close> and
  \<open>yaml.safe_load_all\<close> hand it over. A \<open>dict\<close> keeps its insertion order and its keys
  are strings (the only keys the scripts look up or format). The other scalars YAML can
  produce, floats and dates, pass every test of the scripts as \<open>None\<close>, booleans and
  integers do, and have no constructor of their own.
\<close>

datatype pyval =
    PNone
  | PBool bool
  | PInt int
  | PStr pystr
  | PList "pyval list"
  | PDict "(pystr \<times> pyval) list"

type_synonym pydict = "(pystr \<times> pyval) list"

datatype py_error =
    AttributeError
  | IndexError
  | TypeError
  | FileNotFoundError
  | PermissionError
  | IsADirectoryError
  | UnicodeDecodeError

text \<open>\<open>isinstance(v, dict)\<close> and \<open>isinstance(v, list)\<close>.\<close>

fun is_dict :: "pyval \<Rightarrow> bool" where
  "is_dict (PDict d) = True"
| "is_dict v = False"

fun is_list :: "pyval \<Rightarrow> bool" where
  "is_list (PList xs) = True"
| "is_list v = False"

text \<open>\<open>list(d.keys())[0]\<close> on a dict: the first key, \<open>IndexError\<close> on the empty dict.\<close>

fun first_key :: "pydict \<Rightarrow> py_error + pystr" where
  "first_key [] = Inl IndexError"
| "first_key ((k, v) # d) = Inr k"

text \<open>
  \<open>list(v.keys())[0]\<close> on a value that was not tested with \<open>isinstance\<close>: anything
  but a dict has no \<open>keys\<close> attribute.
\<close>

fun keys0 :: "pyval \<Rightarrow> py_error + pystr" where
  "keys0 (PDict d) = first_key d"
| "keys0 v = Inl AttributeError"

text \<open>
  \<open>for x in v\<close>: a list yields its elements, a dict its keys, a string its characters;
  \<open>None\<close>, booleans and integers are not iterable.
\<close>

fun py_iter :: "pyval \<Rightarrow> py_error + pyval list" where
  "py_iter (PList xs) = Inr xs"
| "py_iter (PDict d) = Inr (map (\<lambda>kv. PStr (fst kv)) d)"
| "py_iter (PStr s) = Inr (map (\<lambda>c. PStr [c]) s)"
| "py_iter v = Inl TypeError"

text \<open>
  \<open>d.get(k, default)\<close> on a dict, and on a value that was not tested with
  \<open>isinstance\<close>.
\<close>

definition dict_get :: "pydict \<Rightarrow> pystr \<Rightarrow> pyval \<Rightarrow> pyval" where
  "dict_get d k dflt = (case map_of d k of None \<Rightarrow> dflt | Some v \<Rightarrow> v)"

fun py_get :: "pyval \<Rightarrow> pystr \<Rightarrow> pyval \<Rightarrow> py_error + pyval" where
  "py_get (PDict d) k dflt = Inr (dict_get d k dflt)"
| "py_get v k dflt = Inl AttributeError"

text \<open>
  \<open>str(v)\<close> as an f-string applies it: a string is inserted as it is; the text of any
  other value is Python's own business and is taken as the parameter \<open>other\<close>.
\<close>

fun py_str :: "(pyval \<Rightarrow> pystr) \<Rightarrow> pyval \<Rightarrow> pystr" where
  "py_str other (PStr s) = s"
| "py_str other v = other v"

text \<open>\<open>sep.join(xs)\<close>.\<close>

fun join :: "pystr \<Rightarrow> pystr list \<Rightarrow> pystr" where
  "join sep [] = []"
| "join sep [x] = x"
| "join sep (x # y # ys) = x @ sep @ join sep (y # ys)"

text \<open>\<open>s.endswith(suffix)\<close>.\<close>

definition endswith :: "pystr \<Rightarrow> pystr \<Rightarrow> bool" where
  "endswith s suf = suffix suf s"

text \<open>\<open>s.replace(old, new)\<close> for a one-character \<open>old\<close> and \<open>new\<close>.\<close>

definition replace_char :: "nat \<Rightarrow> nat \<Rightarrow> pystr \<Rightarrow> pystr" where
  "replace_char old new s = map (\<lambda>c. if c = old then new else c) s"

text \<open>
  \<open>sep in s\<close> and \<open>s.split(sep)[0]\<close>, the text before the first occurrence of a
  non-empty \<open>sep\<close> (all of \<open>s\<close> when there is none).
\<close>

fun contains :: "pystr \<Rightarrow> pystr \<Rightarrow> bool" where
  "contains sep [] = (sep = [])"
| "contains sep (c # cs) = (prefix sep (c # cs) \<or> contains sep cs)"

fun split_head :: "pystr \<Rightarrow> pystr \<Rightarrow> pystr" where
  "split_head sep [] = []"
| "split_head sep (c # cs) = (if prefix sep (c # cs) then [] else c # split_head sep cs)"

text \<open>
  \<open>s.rstrip()\<close> removes the trailing characters that \<open>str.isspace\<close> accepts: the ASCII
  ones (tab to carriage return, the four separators 28 to 31, the space) and the Unicode
  spaces U+0085, U+00A0, U+1680, U+2000 to U+200A, U+2028, U+2029, U+202F, U+205F, U+3000.
\<close>

definition is_space :: "nat \<Rightarrow> bool" where
  "is_space c = ((9 \<le> c \<and> c \<le> 13) \<or> (28 \<le> c \<and> c \<le> 32) \<or> c = 133 \<or> c = 160
     \<or> c = 5760 \<or> (8192 \<le> c \<and> c \<le> 8202) \<or> c = 8232 \<or> c = 8233 \<or> c = 8239
     \<or> c = 8287 \<or> c = 12288)"

definition rstrip :: "pystr \<Rightarrow> pystr" where
  "rstrip s = rev (dropWhile is_space (rev s))"


section \<open>The section replacer\<close>

text \<open>
  Both scripts read the prior README the same way (\<open>update_readme.py\<close> lines 174 to 179,
  \<open>generate_diagrams.py\<close> lines 161 to 166). The outcome of \<open>open\<close> and \<open>read\<close> is the
  input: the content, or the exception raised. Only \<open>FileNotFoundError\<close> is caught.
\<close>

definition DEFAULT_TITLE :: pystr where
  "DEFAULT_TITLE = lit ''# GKE Cluster with Terraform\<newline>\<newline>''"

fun read_readme :: "py_error + pystr \<Rightarrow> py_error + pystr" where
  "read_readme (Inr content) = Inr content"
| "read_readme (Inl FileNotFoundError) = Inr DEFAULT_TITLE"
| "read_readme (Inl e) = Inl e"

definition MARKER :: pystr where
  "MARKER = lit ''<!-- BEGIN AUTO-GENERATED -->''"

text \<open>The content kept from the prior README (lines 182 and 183, 169 and 170).\<close>

definition preserved :: "pystr \<Rightarrow> pystr" where
  "preserved content = (if contains MARKER content then split_head MARKER content else content)"

text \<open>
  The three header lines and the blank line (lines 189 to 191, 173 to 175). \<open>now\<close> is the
  text \<open>datetime.now().strftime\<close> returns; the warning sign is U+26A0 U+FE0F.
\<close>

definition WARNING_LINE :: pystr where
  "WARNING_LINE = lit ''> '' @ [9888, 65039]
     @ lit '' This section is automatically generated. Do not modify manually.\<newline>''"

definition sentinel_header :: "pystr \<Rightarrow> pystr" where
  "sentinel_header now =
     MARKER @ lit ''\<newline>'' @ WARNING_LINE @ lit ''> Last updated: '' @ now @ lit ''\<newline>\<newline>''"

text \<open>\<open>new_content\<close> after the header has been appended (lines 188 to 191, 172 to 175).\<close>

definition new_content_head :: "pystr \<Rightarrow> pystr \<Rightarrow> pystr" where
  "new_content_head content now = rstrip (preserved content) @ lit ''\<newline>\<newline>'' @ sentinel_header now"


section \<open>The environment of a run\<close>

text \<open>
  What the file system and the external parsers give is the input of the model. A file
  that is opened and parsed either fails at \<open>open\<close>, fails in the parser
  (\<open>hcl2.loads\<close>, \<open>yaml.safe_load_all\<close>), or loads. A \<open>print\<close> of a warning is an
  event in the log; the exception text that the printed line ends with is not modelled.
\<close>

datatype 'a loaded = OpenFailed py_error | ParseFailed | Loaded 'a

datatype 'a listdir = ListFailed py_error | Listed "'a list"

datatype warning =
    TerraformWarning pystr
  | KubernetesWarning pystr
  | DiagramWarning

text \<open>A file of a directory listing: its name, its joined path, and what loading it gives.\<close>

type_synonym tf_file = "pystr \<times> pystr \<times> pydict loaded"

type_synonym k8s_file = "pystr \<times> pystr \<times> pyval list loaded"

text \<open>
  \<open>d[k] = v\<close> on an insertion-ordered dict, and
  \<open>if k not in d: d[k] = []\<close> followed by \<open>d[k].append(v)\<close>.
\<close>

fun dict_set :: "pystr \<Rightarrow> 'a \<Rightarrow> (pystr \<times> 'a) list \<Rightarrow> (pystr \<times> 'a) list" where
  "dict_set k v [] = [(k, v)]"
| "dict_set k v ((k', v') # d) = (if k = k' then (k', v) # d else (k', v') # dict_set k v d)"

fun dict_append :: "pystr \<Rightarrow> 'a \<Rightarrow> (pystr \<times> 'a list) list \<Rightarrow> (pystr \<times> 'a list) list" where
  "dict_append k v [] = [(k, [v])]"
| "dict_append k v ((k', vs) # d) =
     (if k = k' then (k', vs @ [v]) # d else (k', vs) # dict_append k v d)"

text \<open>
  A \<open>for\<close> loop whose body appends items to one list or raises: the items appended, in
  order, or the first exception.
\<close>

fun for_each :: "('a \<Rightarrow> py_error + 'b list) \<Rightarrow> 'a list \<Rightarrow> py_error + 'b list" where
  "for_each body [] = Inr []"
| "for_each body (x # xs) =
     (case body x of
        Inl e \<Rightarrow> Inl e
      | Inr ys \<Rightarrow> (case for_each body xs of Inl e \<Rightarrow> Inl e | Inr zs \<Rightarrow> Inr (ys @ zs)))"


section \<open>Structural extraction\<close>

subsection \<open>Resources (both scripts)\<close>

text \<open>
  The two scripts walk the \<open>resource\<close> key in the same way and differ in the string they
  append, which is the parameter \<open>fmt\<close> (type, then instance name).

  Mapping shape (\<open>generate_diagrams.py\<close> lines 44 to 49, \<open>update_readme.py\<close> lines 90 to
  93): \<open>for instance in instances\<close> and \<open>list(instance.keys())[0]\<close>, with no
  \<open>isinstance\<close> test.
\<close>

definition instance_id :: "(pystr \<Rightarrow> pystr \<Rightarrow> pystr) \<Rightarrow> pystr \<Rightarrow> pyval \<Rightarrow> py_error + pystr list" where
  "instance_id fmt resource_type instance =
     (case keys0 instance of Inl e \<Rightarrow> Inl e | Inr k \<Rightarrow> Inr [fmt resource_type k])"

definition type_instances :: "(pystr \<Rightarrow> pystr \<Rightarrow> pystr) \<Rightarrow> pystr \<times> pyval \<Rightarrow> py_error + pystr list" where
  "type_instances fmt item =
     (case py_iter (snd item) of
        Inl e \<Rightarrow> Inl e
      | Inr instances \<Rightarrow> for_each (instance_id fmt (fst item)) instances)"

text \<open>
  Sequence shape (lines 50 to 62, 94 to 103): every level is guarded by \<open>isinstance\<close>;
  the type is the first key of the item and the instances are its value.
\<close>

fun checked_instance_id :: "(pystr \<Rightarrow> pystr \<Rightarrow> pystr) \<Rightarrow> pystr \<Rightarrow> pyval \<Rightarrow> py_error + pystr list" where
  "checked_instance_id fmt resource_type (PDict body) =
     (case first_key body of Inl e \<Rightarrow> Inl e | Inr instance_name \<Rightarrow> Inr [fmt resource_type instance_name])"
| "checked_instance_id fmt resource_type v = Inr []"

fun resource_item_ids :: "(pystr \<Rightarrow> pystr \<Rightarrow> pystr) \<Rightarrow> pyval \<Rightarrow> py_error + pystr list" where
  "resource_item_ids fmt (PDict []) = Inl IndexError"
| "resource_item_ids fmt (PDict ((resource_type, PList instances) # d)) =
     for_each (checked_instance_id fmt resource_type) instances"
| "resource_item_ids fmt (PDict ((resource_type, v) # d)) = Inr []"
| "resource_item_ids fmt v = Inr []"

fun resource_ids :: "(pystr \<Rightarrow> pystr \<Rightarrow> pystr) \<Rightarrow> pyval option \<Rightarrow> py_error + pystr list" where
  "resource_ids fmt None = Inr []"
| "resource_ids fmt (Some (PDict d)) = for_each (type_instances fmt) d"
| "resource_ids fmt (Some (PList items)) = for_each (resource_item_ids fmt) items"
| "resource_ids fmt (Some v) = Inr []"

definition extract_resources :: "(pystr \<Rightarrow> pystr \<Rightarrow> pystr) \<Rightarrow> pydict \<Rightarrow> py_error + pystr list" where
  "extract_resources fmt config = resource_ids fmt (map_of config (lit ''resource''))"

subsection \<open>Names of variables and outputs\<close>

text \<open>
  Variables and outputs in \<open>generate_diagrams.py\<close> (lines 65 to 86) and outputs in
  \<open>update_readme.py\<close> (lines 118 to 126): the keys of a mapping, or the first key of each
  mapping of a sequence. \<open>fmt\<close> is the string appended for a name.
\<close>

fun item_name :: "(pystr \<Rightarrow> pystr) \<Rightarrow> pyval \<Rightarrow> py_error + pystr list" where
  "item_name fmt (PDict d) = (case first_key d of Inl e \<Rightarrow> Inl e | Inr name \<Rightarrow> Inr [fmt name])"
| "item_name fmt v = Inr []"

fun names_of :: "(pystr \<Rightarrow> pystr) \<Rightarrow> pyval option \<Rightarrow> py_error + pystr list" where
  "names_of fmt None = Inr []"
| "names_of fmt (Some (PDict d)) = Inr (map (\<lambda>kv. fmt (fst kv)) d)"
| "names_of fmt (Some (PList items)) = for_each (item_name fmt) items"
| "names_of fmt (Some v) = Inr []"

definition extract_names :: "(pystr \<Rightarrow> pystr) \<Rightarrow> pystr \<Rightarrow> pydict \<Rightarrow> py_error + pystr list" where
  "extract_names fmt key config = names_of fmt (map_of config key)"

subsection \<open>Variables with their type (\<open>update_readme.py\<close> lines 105 to 116)\<close>

text \<open>\<open>var_config.get('type', 'any')\<close>: only a dict has \<open>get\<close>.\<close>

definition var_type :: "pyval \<Rightarrow> py_error + pyval" where
  "var_type var_config = py_get var_config (lit ''type'') (PStr (lit ''any''))"

definition variable_bullet :: "(pyval \<Rightarrow> pystr) \<Rightarrow> pystr \<times> pyval \<Rightarrow> py_error + pystr list" where
  "variable_bullet other item =
     (case var_type (snd item) of
        Inl e \<Rightarrow> Inl e
      | Inr t \<Rightarrow> Inr [lit ''- `'' @ fst item @ lit ''` ('' @ py_str other t @ lit '')''])"

fun variable_item :: "(pyval \<Rightarrow> pystr) \<Rightarrow> pyval \<Rightarrow> py_error + pystr list" where
  "variable_item other (PDict []) = Inl IndexError"
| "variable_item other (PDict (item # d)) = variable_bullet other item"
| "variable_item other v = Inr []"

fun variable_bullets :: "(pyval \<Rightarrow> pystr) \<Rightarrow> pyval option \<Rightarrow> py_error + pystr list" where
  "variable_bullets other None = Inr []"
| "variable_bullets other (Some (PDict d)) = for_each (variable_bullet other) d"
| "variable_bullets other (Some (PList items)) = for_each (variable_item other) items"
| "variable_bullets other (Some v) = Inr []"

definition extract_variables :: "(pyval \<Rightarrow> pystr) \<Rightarrow> pydict \<Rightarrow> py_error + pystr list" where
  "extract_variables other config = variable_bullets other (map_of config (lit ''variable''))"


section \<open>\<open>generate_diagrams.py\<close>: analysis\<close>

record module_details =
  resources :: "pystr list"
  variables :: "pystr list"
  outputs :: "pystr list"

definition empty_details :: module_details where
  "empty_details = \<lparr>resources = [], variables = [], outputs = []\<rparr>"

fun parse_terraform_file :: "pystr \<Rightarrow> pydict loaded \<Rightarrow> warning list \<times> pydict" where
  "parse_terraform_file file_path (Loaded config) = ([], config)"
| "parse_terraform_file file_path failed = ([TerraformWarning file_path], [])"

definition resource_identifier :: "pystr \<Rightarrow> pystr \<Rightarrow> pystr" where
  "resource_identifier resource_type instance_name = resource_type @ lit ''.'' @ instance_name"

text \<open>Lines 42 to 86 for one parsed file: resources, then variables, then outputs.\<close>

definition extract_details :: "pydict \<Rightarrow> module_details \<Rightarrow> py_error + module_details" where
  "extract_details config m =
     (case extract_resources resource_identifier config of
        Inl e \<Rightarrow> Inl e
      | Inr rs \<Rightarrow>
          (case extract_names (\<lambda>n. n) (lit ''variable'') config of
             Inl e \<Rightarrow> Inl e
           | Inr vs \<Rightarrow>
               (case extract_names (\<lambda>n. n) (lit ''output'') config of
                  Inl e \<Rightarrow> Inl e
                | Inr os \<Rightarrow>
                    Inr \<lparr>resources = resources m @ rs, variables = variables m @ vs,
                         outputs = outputs m @ os\<rparr>)))"

text \<open>The loop over the files of one module directory (lines 38 to 86).\<close>

fun analyze_module_files ::
  "tf_file list \<Rightarrow> module_details \<Rightarrow> warning list \<times> (py_error + module_details)" where
  "analyze_module_files [] m = ([], Inr m)"
| "analyze_module_files ((file, file_path, outcome) # files) m =
     (if endswith file (lit ''.tf'') then
        (case extract_details (snd (parse_terraform_file file_path outcome)) m of
           Inl e \<Rightarrow> (fst (parse_terraform_file file_path outcome), Inl e)
         | Inr m' \<Rightarrow>
             (fst (parse_terraform_file file_path outcome) @ fst (analyze_module_files files m'),
              snd (analyze_module_files files m')))
      else analyze_module_files files m)"

text \<open>
  The loop over the entries of \<open>modules/\<close> (lines 29 to 86). An entry is its name and,
  when \<open>os.path.isdir\<close> holds, the listing of the directory.
\<close>

type_synonym module_entry = "pystr \<times> tf_file listdir option"

type_synonym modules = "(pystr \<times> module_details) list"

fun analyze_module_entries ::
  "module_entry list \<Rightarrow> modules \<Rightarrow> warning list \<times> (py_error + modules)" where
  "analyze_module_entries [] tm = ([], Inr tm)"
| "analyze_module_entries ((module, None) # entries) tm = analyze_module_entries entries tm"
| "analyze_module_entries ((module, Some (ListFailed e)) # entries) tm = ([], Inl e)"
| "analyze_module_entries ((module, Some (Listed files)) # entries) tm =
     (case snd (analyze_module_files files empty_details) of
        Inl e \<Rightarrow> (fst (analyze_module_files files empty_details), Inl e)
      | Inr m \<Rightarrow>
          (fst (analyze_module_files files empty_details)
             @ fst (analyze_module_entries entries (dict_set module m tm)),
           snd (analyze_module_entries entries (dict_set module m tm))))"

fun analyze_terraform_modules ::
  "module_entry listdir \<Rightarrow> warning list \<times> (py_error + modules)" where
  "analyze_terraform_modules (ListFailed e) = ([], Inl e)"
| "analyze_terraform_modules (Listed entries) = analyze_module_entries entries []"

text \<open>
  Manifests (lines 88 to 105). A record is the pair of \<open>kind\<close> and \<open>name\<close>, whatever
  values the document holds there. \<open>open\<close> is outside the \<open>try\<close>; the parser and the
  comprehension are inside.
\<close>

type_synonym k8s_record = "pyval \<times> pyval"

type_synonym manifests = "(pystr \<times> k8s_record list) list"

fun manifest_record :: "pyval \<Rightarrow> py_error + k8s_record list" where
  "manifest_record (PDict r) =
     (case py_get (dict_get r (lit ''metadata'') (PDict [])) (lit ''name'') (PStr (lit ''unnamed'')) of
        Inl e \<Rightarrow> Inl e
      | Inr name \<Rightarrow> Inr [(dict_get r (lit ''kind'') (PStr (lit ''Unknown'')), name)])"
| "manifest_record v = Inr []"

definition is_manifest_name :: "pystr \<Rightarrow> bool" where
  "is_manifest_name file = (endswith file (lit ''.yaml'') \<or> endswith file (lit ''.yml''))"

fun analyze_manifest_files ::
  "k8s_file list \<Rightarrow> manifests \<Rightarrow> warning list \<times> (py_error + manifests)" where
  "analyze_manifest_files [] kr = ([], Inr kr)"
| "analyze_manifest_files ((file, file_path, outcome) # files) kr =
     (if is_manifest_name file then
        (case outcome of
           OpenFailed e \<Rightarrow> ([], Inl e)
         | ParseFailed \<Rightarrow>
             (KubernetesWarning file # fst (analyze_manifest_files files kr),
              snd (analyze_manifest_files files kr))
         | Loaded docs \<Rightarrow>
             (case for_each manifest_record docs of
                Inl e \<Rightarrow>
                  (KubernetesWarning file # fst (analyze_manifest_files files kr),
                   snd (analyze_manifest_files files kr))
              | Inr records \<Rightarrow> analyze_manifest_files files (dict_set file records kr)))
      else analyze_manifest_files files kr)"

text \<open>The manifest directory: \<open>None\<close> when \<open>os.path.exists\<close> is false.\<close>

fun analyze_kubernetes_resources ::
  "k8s_file listdir option \<Rightarrow> warning list \<times> (py_error + manifests)" where
  "analyze_kubernetes_resources None = ([], Inr [])"
| "analyze_kubernetes_resources (Some (ListFailed e)) = ([], Inl e)"
| "analyze_kubernetes_resources (Some (Listed files)) = analyze_manifest_files files []"


section \<open>\<open>generate_diagrams.py\<close>: rendering\<close>

text \<open>Node identifiers of the Mermaid diagram (lines 120 and 129).\<close>

definition terraform_node_id :: "pystr \<Rightarrow> pystr \<Rightarrow> pystr" where
  "terraform_node_id module resource =
     replace_char (of_char (CHR ''-'')) (of_char (CHR ''_''))
       (replace_char (of_char (CHR ''.'')) (of_char (CHR ''_'')) (module @ lit ''_'' @ resource))"

definition k8s_node_id :: "(pyval \<Rightarrow> pystr) \<Rightarrow> k8s_record \<Rightarrow> pystr" where
  "k8s_node_id other r =
     replace_char (of_char (CHR ''-'')) (of_char (CHR ''_''))
       (lit ''k8s_'' @ py_str other (fst r) @ lit ''_'' @ py_str other (snd r))"

definition terraform_node :: "pystr \<Rightarrow> pystr \<Rightarrow> pystr" where
  "terraform_node module resource =
     lit ''        '' @ terraform_node_id module resource @ lit ''['' @ resource @ lit '']''"

definition k8s_node :: "(pyval \<Rightarrow> pystr) \<Rightarrow> k8s_record \<Rightarrow> pystr" where
  "k8s_node other r =
     lit ''        '' @ k8s_node_id other r @ lit ''['' @ py_str other (fst r) @ lit ''/''
       @ py_str other (snd r) @ lit '']''"

definition module_subgraph :: "pystr \<times> module_details \<Rightarrow> pystr list" where
  "module_subgraph item =
     [lit ''    subgraph '' @ fst item]
       @ map (terraform_node (fst item)) (resources (snd item))
       @ [lit ''    end'']"

definition kubernetes_subgraph :: "(pyval \<Rightarrow> pystr) \<Rightarrow> manifests \<Rightarrow> pystr list" where
  "kubernetes_subgraph other kr =
     (if kr = [] then []
      else [lit ''    subgraph Kubernetes'']
        @ concat (map (\<lambda>item. map (k8s_node other) (snd item)) kr)
        @ [lit ''    end''])"

definition mermaid_lines :: "(pyval \<Rightarrow> pystr) \<Rightarrow> modules \<Rightarrow> manifests \<Rightarrow> pystr list" where
  "mermaid_lines other tm kr =
     [lit ''```mermaid'', lit ''graph TB'', lit ''    subgraph Infrastructure'',
      lit ''    A[GKE Cluster] --> B[VPC Network]'']
       @ concat (map module_subgraph tm)
       @ kubernetes_subgraph other kr
       @ [lit ''end'', lit ''```'']"

definition generate_mermaid_diagram :: "(pyval \<Rightarrow> pystr) \<Rightarrow> modules \<Rightarrow> manifests \<Rightarrow> pystr" where
  "generate_mermaid_diagram other tm kr = join (lit ''\<newline>'') (mermaid_lines other tm kr)"


text \<open>
  The inputs of a run of either script: the outcome of reading \<open>README.md\<close>, the
  timestamp, whether \<open>terraform-visual\<close> ran without exception, the manifest directory,
  the text Python gives a value that is not a string, and the module tree, as
  \<open>os.listdir\<close> shows it to \<open>generate_diagrams.py\<close> and as \<open>os.walk\<close> shows it to
  \<open>update_readme.py\<close> (each file with the base name of its directory).
\<close>

type_synonym walk_file = "pystr \<times> pystr \<times> pystr \<times> pydict loaded"

record env =
  readme :: "py_error + pystr"
  now :: pystr
  visual_ok :: bool
  manifest_dir :: "k8s_file listdir option"
  other_str :: "pyval \<Rightarrow> pystr"
  modules_dir :: "module_entry listdir"
  walk :: "walk_file list"

text \<open>Section headers; the emoji are U+1F4CA, U+1F3D7 and U+1F6A2.\<close>

definition MODULES_HEADER :: pystr where
  "MODULES_HEADER = lit ''## '' @ [127959] @ lit '' Terraform Modules\<newline>\<newline>''"

definition KUBERNETES_HEADER :: pystr where
  "KUBERNETES_HEADER = lit ''## '' @ [128674] @ lit '' Kubernetes Resources\<newline>\<newline>''"

text \<open>The prose sections of \<open>generate_diagrams.py\<close> (lines 177 to 219).\<close>

definition name_bullet_line :: "pystr \<Rightarrow> pystr" where
  "name_bullet_line x = lit ''- `'' @ x @ lit ''`\<newline>''"

definition details_group :: "pystr \<Rightarrow> pystr list \<Rightarrow> pystr" where
  "details_group title items =
     (if items = [] then [] else title @ concat (map name_bullet_line items) @ lit ''\<newline>'')"

definition module_section :: "pystr \<times> module_details \<Rightarrow> pystr" where
  "module_section item =
     lit ''### '' @ fst item @ lit ''\<newline>\<newline>''
       @ details_group (lit ''**Resources:**\<newline>'') (resources (snd item))
       @ details_group (lit ''**Variables:**\<newline>'') (variables (snd item))
       @ details_group (lit ''**Outputs:**\<newline>'') (outputs (snd item))"

definition record_bullet_line :: "(pyval \<Rightarrow> pystr) \<Rightarrow> k8s_record \<Rightarrow> pystr" where
  "record_bullet_line other r =
     lit ''- `'' @ py_str other (fst r) @ lit ''/'' @ py_str other (snd r) @ lit ''`\<newline>''"

definition manifest_section :: "(pyval \<Rightarrow> pystr) \<Rightarrow> pystr \<times> k8s_record list \<Rightarrow> pystr" where
  "manifest_section other item =
     lit ''### '' @ fst item @ lit ''\<newline>\<newline>''
       @ concat (map (record_bullet_line other) (snd item)) @ lit ''\<newline>''"

definition kubernetes_section :: "(pyval \<Rightarrow> pystr) \<Rightarrow> manifests \<Rightarrow> pystr" where
  "kubernetes_section other kr =
     (if kr = [] then [] else KUBERNETES_HEADER @ concat (map (manifest_section other) kr))"

fun generate_terraform_visual_diagram :: "bool \<Rightarrow> warning list \<times> bool" where
  "generate_terraform_visual_diagram True = ([], True)"
| "generate_terraform_visual_diagram False = ([DiagramWarning], False)"

definition detailed_view :: "bool \<Rightarrow> pystr" where
  "detailed_view ok =
     (if ok then lit ''### Detailed Infrastructure View\<newline>''
        @ lit ''![Infrastructure Diagram](docs/diagrams/infrastructure.png)\<newline>\<newline>''
      else [])"

text \<open>Everything \<open>generate_diagrams.py\<close> appends after the header (lines 177 to 219).\<close>

definition generator_sections :: "(pyval \<Rightarrow> pystr) \<Rightarrow> bool \<Rightarrow> modules \<Rightarrow> manifests \<Rightarrow> pystr" where
  "generator_sections other ok tm kr =
     lit ''## '' @ [128202] @ lit '' Infrastructure Diagrams\<newline>\<newline>''
       @ lit ''### Infrastructure Overview\<newline>''
       @ generate_mermaid_diagram other tm kr @ lit ''\<newline>\<newline>''
       @ detailed_view ok
       @ MODULES_HEADER @ concat (map module_section tm)
       @ kubernetes_section other kr"

text \<open>
  \<open>InfrastructureDiagramGenerator.update_readme\<close> (lines 154 to 225): the warnings printed
  and the content handed to \<open>f.write\<close>, or the exception that ends the run. The write
  itself, which overwrites \<open>README.md\<close>, is the last step and is not part of the model.
\<close>

definition update_readme_generator :: "env \<Rightarrow> warning list \<times> (py_error + pystr)" where
  "update_readme_generator E =
     (case snd (analyze_terraform_modules (modules_dir E)) of
        Inl e \<Rightarrow> (fst (analyze_terraform_modules (modules_dir E)), Inl e)
      | Inr tm \<Rightarrow>
          (case snd (analyze_kubernetes_resources (manifest_dir E)) of
             Inl e \<Rightarrow>
               (fst (analyze_terraform_modules (modules_dir E))
                  @ fst (analyze_kubernetes_resources (manifest_dir E)), Inl e)
           | Inr kr \<Rightarrow>
               (case read_readme (readme E) of
                  Inl e \<Rightarrow>
                    (fst (analyze_terraform_modules (modules_dir E))
                       @ fst (analyze_kubernetes_resources (manifest_dir E)), Inl e)
                | Inr content \<Rightarrow>
                    (fst (analyze_terraform_modules (modules_dir E))
                       @ fst (analyze_kubernetes_resources (manifest_dir E))
                       @ fst (generate_terraform_visual_diagram (visual_ok E)),
                     Inr (new_content_head content (now E)
                       @ generator_sections (other_str E)
                           (snd (generate_terraform_visual_diagram (visual_ok E))) tm kr)))))"


section \<open>\<open>update_readme.py\<close>\<close>

fun analyze_terraform_file :: "pystr \<Rightarrow> pydict loaded \<Rightarrow> warning list \<times> pydict" where
  "analyze_terraform_file file_path (Loaded parsed) = ([], parsed)"
| "analyze_terraform_file file_path failed = ([TerraformWarning file_path], [])"

text \<open>The result is the list of documents, or the empty dict after a failure.\<close>

fun analyze_kubernetes_manifests :: "pystr \<Rightarrow> pyval list loaded \<Rightarrow> warning list \<times> pyval" where
  "analyze_kubernetes_manifests file_path (Loaded content) = ([], PList content)"
| "analyze_kubernetes_manifests file_path failed = ([KubernetesWarning file_path], PDict [])"

text \<open>\<open>analyze_project\<close>, first loop (lines 58 to 67).\<close>

type_synonym configs = "(pystr \<times> pydict list) list"

fun analyze_walk :: "walk_file list \<Rightarrow> configs \<Rightarrow> warning list \<times> configs" where
  "analyze_walk [] tm = ([], tm)"
| "analyze_walk ((file, file_path, module_name, outcome) # files) tm =
     (if endswith file (lit ''.tf'') then
        (fst (analyze_terraform_file file_path outcome)
           @ fst (analyze_walk files
                (dict_append module_name (snd (analyze_terraform_file file_path outcome)) tm)),
         snd (analyze_walk files
                (dict_append module_name (snd (analyze_terraform_file file_path outcome)) tm)))
      else analyze_walk files tm)"

text \<open>\<open>analyze_project\<close>, second loop (lines 70 to 75).\<close>

type_synonym documents = "(pystr \<times> pyval) list"

fun analyze_manifest_dir :: "k8s_file list \<Rightarrow> documents \<Rightarrow> warning list \<times> documents" where
  "analyze_manifest_dir [] kr = ([], kr)"
| "analyze_manifest_dir ((file, file_path, outcome) # files) kr =
     (if is_manifest_name file then
        (fst (analyze_kubernetes_manifests file_path outcome)
           @ fst (analyze_manifest_dir files
                (dict_set file (snd (analyze_kubernetes_manifests file_path outcome)) kr)),
         snd (analyze_manifest_dir files
                (dict_set file (snd (analyze_kubernetes_manifests file_path outcome)) kr)))
      else analyze_manifest_dir files kr)"

fun analyze_manifests :: "k8s_file listdir option \<Rightarrow> warning list \<times> (py_error + documents)" where
  "analyze_manifests None = ([], Inr [])"
| "analyze_manifests (Some (ListFailed e)) = ([], Inl e)"
| "analyze_manifests (Some (Listed files)) =
     (fst (analyze_manifest_dir files []), Inr (snd (analyze_manifest_dir files [])))"

definition analyze_project :: "env \<Rightarrow> warning list \<times> (py_error + configs \<times> documents)" where
  "analyze_project E =
     (case snd (analyze_manifests (manifest_dir E)) of
        Inl e \<Rightarrow> (fst (analyze_walk (walk E) []) @ fst (analyze_manifests (manifest_dir E)), Inl e)
      | Inr kr \<Rightarrow>
          (fst (analyze_walk (walk E) []) @ fst (analyze_manifests (manifest_dir E)),
           Inr (snd (analyze_walk (walk E) []), kr)))"

subsection \<open>\<open>generate_module_documentation\<close> (lines 77 to 135)\<close>

definition resource_bullet :: "pystr \<Rightarrow> pystr \<Rightarrow> pystr" where
  "resource_bullet resource_type instance_name =
     lit ''- `'' @ resource_type @ lit ''.'' @ instance_name @ lit ''`''"

definition output_bullet :: "pystr \<Rightarrow> pystr" where
  "output_bullet output_name = lit ''- `'' @ output_name @ lit ''`''"

text \<open>One pass of \<open>for config in configs\<close>: what is appended to the three lists.\<close>

definition config_bullets ::
  "(pyval \<Rightarrow> pystr) \<Rightarrow> pydict \<Rightarrow> py_error + pystr list \<times> pystr list \<times> pystr list" where
  "config_bullets other config =
     (case extract_resources resource_bullet config of
        Inl e \<Rightarrow> Inl e
      | Inr rs \<Rightarrow>
          (case extract_variables other config of
             Inl e \<Rightarrow> Inl e
           | Inr vs \<Rightarrow>
               (case extract_names output_bullet (lit ''output'') config of
                  Inl e \<Rightarrow> Inl e
                | Inr os \<Rightarrow> Inr (rs, vs, os))))"

fun module_bullets ::
  "(pyval \<Rightarrow> pystr) \<Rightarrow> pydict list \<Rightarrow> py_error + pystr list \<times> pystr list \<times> pystr list" where
  "module_bullets other [] = Inr ([], [], [])"
| "module_bullets other (config # configs) =
     (case config_bullets other config of
        Inl e \<Rightarrow> Inl e
      | Inr (rs, vs, os) \<Rightarrow>
          (case module_bullets other configs of
             Inl e \<Rightarrow> Inl e
           | Inr (rs', vs', os') \<Rightarrow> Inr (rs @ rs', vs @ vs', os @ os')))"

definition bullet_group :: "pystr \<Rightarrow> pystr list \<Rightarrow> pystr" where
  "bullet_group title items =
     (if items = [] then [] else title @ join (lit ''\<newline>'') items @ lit ''\<newline>\<newline>'')"

definition module_doc :: "(pyval \<Rightarrow> pystr) \<Rightarrow> pystr \<times> pydict list \<Rightarrow> py_error + pystr list" where
  "module_doc other item =
     (case module_bullets other (snd item) of
        Inl e \<Rightarrow> Inl e
      | Inr (rs, vs, os) \<Rightarrow>
          Inr [lit ''### '' @ fst item @ lit ''\<newline>\<newline>''
                 @ bullet_group (lit ''**Resources:**\<newline>'') rs
                 @ bullet_group (lit ''**Variables:**\<newline>'') vs
                 @ bullet_group (lit ''**Outputs:**\<newline>'') os])"

definition generate_module_documentation :: "(pyval \<Rightarrow> pystr) \<Rightarrow> configs \<Rightarrow> py_error + pystr" where
  "generate_module_documentation other tm =
     (case for_each (module_doc other) tm of
        Inl e \<Rightarrow> Inl e
      | Inr docs \<Rightarrow> Inr (MODULES_HEADER @ concat docs))"

subsection \<open>\<open>generate_kubernetes_documentation\<close> (lines 137 to 150)\<close>

fun document_bullet :: "(pyval \<Rightarrow> pystr) \<Rightarrow> pyval \<Rightarrow> py_error + pystr list" where
  "document_bullet other (PDict resource) =
     (case py_get (dict_get resource (lit ''metadata'') (PDict [])) (lit ''name'')
             (PStr (lit ''unnamed'')) of
        Inl e \<Rightarrow> Inl e
      | Inr name \<Rightarrow>
          Inr [lit ''- `'' @ py_str other (dict_get resource (lit ''kind'') (PStr (lit ''Unknown'')))
                 @ lit ''/'' @ py_str other name @ lit ''`\<newline>''])"
| "document_bullet other v = Inr []"

definition file_doc :: "(pyval \<Rightarrow> pystr) \<Rightarrow> pystr \<times> pyval \<Rightarrow> py_error + pystr list" where
  "file_doc other item =
     (case py_iter (snd item) of
        Inl e \<Rightarrow> Inl e
      | Inr docs \<Rightarrow>
          (case for_each (document_bullet other) docs of
             Inl e \<Rightarrow> Inl e
           | Inr bullets \<Rightarrow>
               Inr [lit ''### '' @ fst item @ lit ''\<newline>\<newline>'' @ concat bullets @ lit ''\<newline>'']))"

definition generate_kubernetes_documentation ::
  "(pyval \<Rightarrow> pystr) \<Rightarrow> documents \<Rightarrow> py_error + pystr" where
  "generate_kubernetes_documentation other kr =
     (case for_each (file_doc other) kr of
        Inl e \<Rightarrow> Inl e
      | Inr docs \<Rightarrow> Inr (KUBERNETES_HEADER @ concat docs))"

fun generate_infrastructure_diagram :: "bool \<Rightarrow> warning list \<times> pystr" where
  "generate_infrastructure_diagram True =
     ([], lit ''## '' @ [128202] @ lit '' Infrastructure Diagram\<newline>\<newline>''
        @ lit ''![Infrastructure Diagram](docs/diagrams/infrastructure.png)\<newline>\<newline>'')"
| "generate_infrastructure_diagram False = ([DiagramWarning], [])"

text \<open>
  \<open>ProjectAnalyzer.update_readme\<close> (lines 170 to 204): the README is read first, then the
  project is analysed and the sections are rendered in the order diagram, modules,
  manifests.
\<close>

definition analyzer_sections ::
  "(pyval \<Rightarrow> pystr) \<Rightarrow> bool \<Rightarrow> configs \<Rightarrow> documents \<Rightarrow> py_error + pystr" where
  "analyzer_sections other ok tm kr =
     (case generate_module_documentation other tm of
        Inl e \<Rightarrow> Inl e
      | Inr module_text \<Rightarrow>
          (case generate_kubernetes_documentation other kr of
             Inl e \<Rightarrow> Inl e
           | Inr kubernetes_text \<Rightarrow>
               Inr (snd (generate_infrastructure_diagram ok) @ module_text @ kubernetes_text)))"

definition update_readme_analyzer :: "env \<Rightarrow> warning list \<times> (py_error + pystr)" where
  "update_readme_analyzer E =
     (case read_readme (readme E) of
        Inl e \<Rightarrow> ([], Inl e)
      | Inr content \<Rightarrow>
          (case snd (analyze_project E) of
             Inl e \<Rightarrow> (fst (analyze_project E), Inl e)
           | Inr (tm, kr) \<Rightarrow>
               (case analyzer_sections (other_str E) (visual_ok E) tm kr of
                  Inl e \<Rightarrow>
                    (fst (analyze_project E) @ fst (generate_infrastructure_diagram (visual_ok E)),
                     Inl e)
                | Inr sections \<Rightarrow>
                    (fst (analyze_project E) @ fst (generate_infrastructure_diagram (visual_ok E)),
                     Inr (new_content_head content (now E) @ sections)))))"


section \<open>A sample project\<close>

text \<open>
  The project of the end-to-end scenario: one module \<open>network\<close> whose file \<open>main.tf\<close>
  declares the resource \<open>vpc_network.main\<close>, the variable \<open>region\<close> of type \<open>string\<close>
  and the output \<open>network_id\<close>; no manifest directory; a README with hand-written text
  before the marker. The file is given as the parser returns it: every block kind holds a
  sequence of single-key mappings, and the labels of a block nest as mappings, so the
  resource type maps to a mapping from the instance name to the body.
\<close>

definition example_config :: pydict where
  "example_config =
     [(lit ''resource'', PList [PDict [(lit ''vpc_network'', PDict [(lit ''main'', PDict [])])]]),
      (lit ''variable'', PList [PDict [(lit ''region'', PDict [(lit ''type'', PStr (lit ''string''))])]]),
      (lit ''output'', PList [PDict [(lit ''network_id'',
         PDict [(lit ''value'', PStr (lit ''${vpc_network.main.id}''))])]])]"

text \<open>
  The same declarations with the resource type mapped to the sequence of its instances,
  the nesting that the resource loops of both scripts walk.
\<close>

definition walked_config :: pydict where
  "walked_config =
     [(lit ''resource'', PList [PDict [(lit ''vpc_network'', PList [PDict [(lit ''main'', PDict [])]])]]),
      (lit ''variable'', PList [PDict [(lit ''region'', PDict [(lit ''type'', PStr (lit ''string''))])]]),
      (lit ''output'', PList [PDict [(lit ''network_id'',
         PDict [(lit ''value'', PStr (lit ''${vpc_network.main.id}''))])]])]"

definition example_readme :: pystr where
  "example_readme = lit ''# Demo\<newline>\<newline>Notes. \<newline>\<newline>\<newline><!-- BEGIN AUTO-GENERATED -->\<newline>old''"

definition example_env :: env where
  "example_env =
     \<lparr>readme = Inr example_readme,
      now = lit ''2024-01-01 00:00:00'',
      visual_ok = False,
      manifest_dir = None,
      other_str = (\<lambda>v. lit ''?''),
      modules_dir = Listed [(lit ''network'',
         Some (Listed [(lit ''main.tf'', lit ''modules/network/main.tf'', Loaded example_config)]))],
      walk = [(lit ''main.tf'', lit ''modules/network/main.tf'', lit ''network'', Loaded example_config)]\<rparr>"


text \<open>
  The README each script writes for the sample project, traced by hand through the source,
  as a function of the timestamp. \<open>terraform-visual\<close> fails in the sample run, so no
  image is referenced. No resource is listed: the resource loops find a mapping where
  they test for a sequence of instances.
\<close>

definition example_generator_text :: "pystr \<Rightarrow> pystr" where
  "example_generator_text ts =
     lit ''# Demo\<newline>\<newline>Notes.\<newline>\<newline><!-- BEGIN AUTO-GENERATED -->\<newline>''
       @ lit ''> ''
       @ [9888, 65039]
       @ lit '' This section is automatically generated. Do not modify manually.\<newline>''
       @ lit ''> Last updated: ''
       @ ts
       @ lit ''\<newline>\<newline>## ''
       @ [128202]
       @ lit '' Infrastructure Diagrams\<newline>\<newline>### Infrastructure Overview\<newline>''
       @ lit ''```mermaid\<newline>graph TB\<newline>    subgraph Infrastructure\<newline>''
       @ lit ''    A[GKE Cluster] --> B[VPC Network]\<newline>    subgraph network\<newline>''
       @ lit ''    end\<newline>end\<newline>```\<newline>\<newline>## ''
       @ [127959]
       @ lit '' Terraform Modules\<newline>\<newline>### network\<newline>\<newline>''
       @ lit ''**Variables:**\<newline>- `region`\<newline>''
       @ lit ''\<newline>**Outputs:**\<newline>- `network_id`\<newline>\<newline>''"

definition example_analyzer_text :: "pystr \<Rightarrow> pystr" where
  "example_analyzer_text ts =
     lit ''# Demo\<newline>\<newline>Notes.\<newline>\<newline><!-- BEGIN AUTO-GENERATED -->\<newline>''
       @ lit ''> ''
       @ [9888, 65039]
       @ lit '' This section is automatically generated. Do not modify manually.\<newline>''
       @ lit ''> Last updated: ''
       @ ts
       @ lit ''\<newline>\<newline>## ''
       @ [127959]
       @ lit '' Terraform Modules\<newline>\<newline>### network\<newline>\<newline>''
       @ lit ''**Variables:**\<newline>- `region` (string)\<newline>''
       @ lit ''\<newline>**Outputs:**\<newline>- `network_id`\<newline>\<newline>## ''
       @ [128674]
       @ lit '' Kubernetes Resources\<newline>\<newline>''"


section \<open>The specification of the section replacer\<close>

text \<open>
  The words of the specification, to compare the code with. \<open>p\<close> is the prefix of the
  content before the first occurrence of the marker, or the whole content when the
  marker does not occur; \<open>t\<close> is \<open>p\<close> trimmed of trailing whitespace.
\<close>

definition prefix_before_marker :: "pystr \<Rightarrow> pystr \<Rightarrow> bool" where
  "prefix_before_marker content p =
     (if (\<exists>a b. content = a @ MARKER @ b)
      then (\<exists>rest. content = p @ MARKER @ rest)
           \<and> (\<forall>a b. content = a @ MARKER @ b \<longrightarrow> length p \<le> length a)
      else p = content)"

definition trimmed :: "pystr \<Rightarrow> pystr \<Rightarrow> bool" where
  "trimmed p t =
     (\<exists>ws. p = t @ ws \<and> (\<forall>c \<in> set ws. is_space c) \<and> (t = [] \<or> \<not> is_space (last t)))"


section \<open>The specification of resource blocks\<close>









section \<open>More sample inputs\<close>

text \<open>
  A manifest whose name contains a dot, a manifest document whose \<open>metadata\<close> field is
  null (YAML \<open>metadata:\<close> with nothing after it), and the test whether a file loaded.
\<close>

definition example_manifest :: pyval where
  "example_manifest =
     PDict [(lit ''apiVersion'', PStr (lit ''v1'')), (lit ''kind'', PStr (lit ''ConfigMap'')),
            (lit ''metadata'', PDict [(lit ''name'', PStr (lit ''app.config''))])]"

definition null_metadata_document :: pyval where
  "null_metadata_document = PDict [(lit ''kind'', PStr (lit ''Pod'')), (lit ''metadata'', PNone)]"

fun is_loaded :: "'a loaded \<Rightarrow> bool" where
  "is_loaded (Loaded x) = True"
| "is_loaded l = False"


section \<open>The specification of variable bullets\<close>




section \<open>Basic facts\<close>

lemma join_Cons: "ys \<noteq> [] \<Longrightarrow> join sep (x # ys) = x @ sep @ join sep ys"
  by (cases ys) simp_all

lemma lit_append: "lit (s @ t) = lit s @ lit t"
  by (simp add: lit_def)

lemma for_each_concat:
  "(\<And>x. x \<in> set xs \<Longrightarrow> body x = Inr (g x)) \<Longrightarrow> for_each body xs = Inr (concat (map g xs))"
  by (induction xs) simp_all


subsection \<open>Searching for a separator\<close>

lemma contains_iff: "contains sep s \<longleftrightarrow> (\<exists>a b. s = a @ sep @ b)"
proof (induction s)
  case Nil
  show ?case by auto
next
  case (Cons c cs)
  show ?case
  proof
    assume "contains sep (c # cs)"
    then consider "prefix sep (c # cs)" | "contains sep cs" by auto
    then show "\<exists>a b. c # cs = a @ sep @ b"
    proof cases
      case 1
      then obtain b where "c # cs = sep @ b" by (auto simp: prefix_def)
      then have "c # cs = [] @ sep @ b" by simp
      then show ?thesis by blast
    next
      case 2
      with Cons.IH obtain a b where "cs = a @ sep @ b" by blast
      then have "c # cs = (c # a) @ sep @ b" by simp
      then show ?thesis by blast
    qed
  next
    assume "\<exists>a b. c # cs = a @ sep @ b"
    then obtain a b where ab: "c # cs = a @ sep @ b" by blast
    show "contains sep (c # cs)"
    proof (cases a)
      case Nil
      with ab have "prefix sep (c # cs)" by (simp add: prefix_def)
      then show ?thesis by simp
    next
      case (Cons x a')
      with ab have "cs = a' @ sep @ b" by simp
      with Cons.IH have "contains sep cs" by blast
      then show ?thesis by simp
    qed
  qed
qed

lemma contains_append_left: "contains sep u \<Longrightarrow> contains sep (u @ v)"
proof -
  assume "contains sep u"
  then obtain a b where "u = a @ sep @ b" by (auto simp: contains_iff)
  then have "u @ v = a @ sep @ (b @ v)" by simp
  then show ?thesis unfolding contains_iff by blast
qed

lemma contains_append_right: "contains sep v \<Longrightarrow> contains sep (u @ v)"
proof -
  assume "contains sep v"
  then obtain a b where "v = a @ sep @ b" by (auto simp: contains_iff)
  then have "u @ v = (u @ a) @ sep @ b" by simp
  then show ?thesis unfolding contains_iff by blast
qed

lemma not_contains_short: "length s < length sep \<Longrightarrow> \<not> contains sep s"
  by (auto simp: contains_iff)

lemma split_head_prefix: "prefix (split_head sep s) s"
  by (induction s) auto

lemma split_head_absent: "\<not> contains sep s \<Longrightarrow> split_head sep s = s"
  by (induction s) auto

lemma split_head_decomp:
  "contains sep s \<Longrightarrow> sep \<noteq> [] \<Longrightarrow> \<exists>rest. s = split_head sep s @ sep @ rest"
proof (induction s)
  case Nil
  then show ?case by simp
next
  case (Cons c cs)
  show ?case
  proof (cases "prefix sep (c # cs)")
    case True
    then show ?thesis by (auto simp: prefix_def)
  next
    case False
    with Cons.prems have "contains sep cs" by simp
    with Cons.IH Cons.prems obtain rest where "cs = split_head sep cs @ sep @ rest" by blast
    with False show ?thesis by auto
  qed
qed

lemma split_head_first: "s = a @ sep @ b \<Longrightarrow> length (split_head sep s) \<le> length a"
proof (induction s arbitrary: a)
  case Nil
  then show ?case by simp
next
  case (Cons c cs)
  show ?case
  proof (cases "prefix sep (c # cs)")
    case True
    then show ?thesis by simp
  next
    case False
    with Cons.prems obtain a' where a: "a = c # a'" and "cs = a' @ sep @ b"
      by (cases a) (auto simp: prefix_def)
    with Cons.IH have "length (split_head sep cs) \<le> length a'" by blast
    with False a show ?thesis by simp
  qed
qed

lemma prefix_avoid: "x \<notin> set sep \<Longrightarrow> prefix sep (w @ x # v) \<Longrightarrow> prefix sep w"
  by (auto simp: prefix_append prefix_Cons)

lemma contains_avoid:
  "x \<notin> set sep \<Longrightarrow> contains sep (u @ x # v) \<longleftrightarrow> contains sep u \<or> contains sep v"
proof (induction u)
  case Nil
  then show ?case by (auto simp: prefix_Cons)
next
  case (Cons c u)
  have "prefix sep (c # u @ x # v) \<longleftrightarrow> prefix sep (c # u)"
  proof
    assume "prefix sep (c # u @ x # v)"
    then show "prefix sep (c # u)"
      using prefix_avoid [OF Cons.prems, of "c # u" v] by simp
  next
    assume "prefix sep (c # u)"
    then have "prefix sep ((c # u) @ x # v)" by (rule prefix_prefix)
    then show "prefix sep (c # u @ x # v)" by simp
  qed
  with Cons show ?case by auto
qed

lemma split_head_at:
  "sep \<noteq> [] \<Longrightarrow> \<not> contains sep (q @ butlast sep) \<Longrightarrow> split_head sep (q @ sep @ rest) = q"
proof (induction q)
  case Nil
  then show ?case by (cases sep) simp_all
next
  case (Cons x q)
  from Cons.prems have np: "\<not> prefix sep (x # q @ butlast sep)"
    and nc: "\<not> contains sep (q @ butlast sep)" by simp_all
  have "\<not> prefix sep (x # q @ sep @ rest)"
  proof
    assume p: "prefix sep (x # q @ sep @ rest)"
    have "sep = butlast sep @ [last sep]" using Cons.prems(1) by simp
    then have "x # q @ sep @ rest = (x # q @ butlast sep) @ (last sep # rest)"
      by (metis append.assoc append_Cons append_Nil)
    then have "prefix (x # q @ butlast sep) (x # q @ sep @ rest)"
      unfolding prefix_def by blast
    moreover have "length sep \<le> length (x # q @ butlast sep)"
      using Cons.prems(1) by (cases sep) simp_all
    ultimately have "prefix sep (x # q @ butlast sep)"
      using p prefix_length_prefix by blast
    with np show False by blast
  qed
  with Cons.IH [OF Cons.prems(1) nc] show ?case by simp
qed

subsection \<open>Trailing whitespace\<close>

lemma rstrip_decomp: "s = rstrip s @ rev (takeWhile is_space (rev s))"
proof -
  have "rev (dropWhile is_space (rev s)) @ rev (takeWhile is_space (rev s))
      = rev (takeWhile is_space (rev s) @ dropWhile is_space (rev s))"
    by (simp only: rev_append)
  also have "\<dots> = rev (rev s)" by (simp only: takeWhile_dropWhile_id)
  finally show ?thesis by (simp add: rstrip_def)
qed

lemma rstrip_last: "rstrip s \<noteq> [] \<Longrightarrow> \<not> is_space (last (rstrip s))"
  by (simp add: rstrip_def last_rev hd_dropWhile)

lemma rstrip_spaces:
  assumes "\<forall>c \<in> set ws. is_space c"
  shows "rstrip (rstrip s @ ws) = rstrip s"
proof -
  have "dropWhile is_space (rev ws @ dropWhile is_space (rev s))
      = dropWhile is_space (dropWhile is_space (rev s))"
    by (rule dropWhile_append2) (use assms in auto)
  then show ?thesis by (simp add: rstrip_def)
qed

lemma rstrip_prefix: "prefix (rstrip s) s"
  using rstrip_decomp [of s] unfolding prefix_def by blast

lemma trimmed_rstrip: "trimmed p (rstrip p)"
  unfolding trimmed_def
proof (intro exI conjI)
  show "p = rstrip p @ rev (takeWhile is_space (rev p))" by (rule rstrip_decomp)
  show "\<forall>c \<in> set (rev (takeWhile is_space (rev p))). is_space c"
    by (auto dest: set_takeWhileD)
  show "rstrip p = [] \<or> \<not> is_space (last (rstrip p))" using rstrip_last by blast
qed

subsection \<open>The marker\<close>

lemma MARKER_nonempty: "MARKER \<noteq> []"
  by (simp add: MARKER_def lit_def)

lemma MARKER_no_newline: "10 \<notin> set MARKER"
  by (simp add: MARKER_def lit_def)

lemma newline_space: "is_space 10"
  by (simp add: is_space_def)

lemma lit_newlines: "lit ''\<newline>\<newline>'' = [10, 10]"
  by (simp add: lit_def)

lemma prefix_before_marker_preserved: "prefix_before_marker content (preserved content)"
proof (cases "contains MARKER content")
  case True
  then have ex: "\<exists>a b. content = a @ MARKER @ b" by (simp add: contains_iff)
  from True have "\<exists>rest. content = split_head MARKER content @ MARKER @ rest"
    by (rule split_head_decomp) (rule MARKER_nonempty)
  moreover have "\<forall>a b. content = a @ MARKER @ b \<longrightarrow> length (split_head MARKER content) \<le> length a"
    using split_head_first by blast
  ultimately show ?thesis using True ex by (simp add: prefix_before_marker_def preserved_def)
next
  case False
  then have "\<not> (\<exists>a b. content = a @ MARKER @ b)" by (simp add: contains_iff)
  with False show ?thesis by (simp add: prefix_before_marker_def preserved_def)
qed

lemma preserved_no_marker: "\<not> contains MARKER (preserved content)"
proof (cases "contains MARKER content")
  case False
  then show ?thesis by (simp add: preserved_def)
next
  case True
  then obtain rest where c: "content = split_head MARKER content @ MARKER @ rest"
    using split_head_decomp MARKER_nonempty by blast
  show ?thesis
  proof
    assume "contains MARKER (preserved content)"
    with True have "contains MARKER (split_head MARKER content)" by (simp add: preserved_def)
    then obtain a b where sh: "split_head MARKER content = a @ MARKER @ b"
      by (auto simp: contains_iff)
    with c have "content = a @ MARKER @ (b @ MARKER @ rest)" by (metis append.assoc)
    then have "length (split_head MARKER content) \<le> length a" by (rule split_head_first)
    with sh MARKER_nonempty show False by simp
  qed
qed

lemma preserved_new_content:
  "preserved (new_content_head content t @ sections) = rstrip (preserved content) @ lit ''\<newline>\<newline>''"
proof -
  define p where "p = rstrip (preserved content)"
  define rest where "rest = lit ''\<newline>'' @ WARNING_LINE @ lit ''> Last updated: '' @ t @ lit ''\<newline>\<newline>'' @ sections"
  have eq: "new_content_head content t @ sections = (p @ [10, 10]) @ MARKER @ rest"
    by (simp add: new_content_head_def sentinel_header_def p_def rest_def lit_newlines)
  have "\<not> contains MARKER p"
  proof
    assume "contains MARKER p"
    moreover obtain zs where "preserved content = p @ zs"
      using rstrip_prefix [of "preserved content"] by (auto simp: p_def prefix_def)
    ultimately have "contains MARKER (preserved content)"
      using contains_append_left [of MARKER p zs] by simp
    then show False using preserved_no_marker by blast
  qed
  moreover have "\<not> contains MARKER (butlast MARKER)"
    using MARKER_nonempty by (intro not_contains_short) (simp add: length_greater_0_conv)
  moreover have "\<not> contains MARKER []" using MARKER_nonempty by simp
  ultimately have "\<not> contains MARKER ((p @ [10, 10]) @ butlast MARKER)"
    using contains_avoid [OF MARKER_no_newline, of p "10 # butlast MARKER"]
      contains_avoid [OF MARKER_no_newline, of "[]" "butlast MARKER"]
    by simp
  then have "split_head MARKER ((p @ [10, 10]) @ MARKER @ rest) = p @ [10, 10]"
    using MARKER_nonempty by (intro split_head_at)
  moreover have "contains MARKER ((p @ [10, 10]) @ MARKER @ rest)"
    unfolding contains_iff by blast
  ultimately have "preserved ((p @ [10, 10]) @ MARKER @ rest) = p @ [10, 10]"
    by (simp add: preserved_def)
  then show ?thesis
    unfolding eq by (simp add: p_def lit_newlines)
qed

lemma new_content_head_again:
  "new_content_head (new_content_head content t @ sections) t' = new_content_head content t'"
proof -
  have "rstrip (rstrip (preserved content) @ [10, 10]) = rstrip (preserved content)"
    by (rule rstrip_spaces) (simp add: newline_space)
  then show ?thesis
    by (simp add: new_content_head_def [of _ t'] preserved_new_content lit_newlines)
qed

subsection \<open>The runs as a whole\<close>

lemma visual_result [simp]: "snd (generate_terraform_visual_diagram ok) = ok"
  by (cases ok) simp_all

lemma analyzer_run:
  "snd (update_readme_analyzer E) = Inr out \<longleftrightarrow>
     (\<exists>content tm kr sections.
        read_readme (readme E) = Inr content \<and> snd (analyze_project E) = Inr (tm, kr)
        \<and> analyzer_sections (other_str E) (visual_ok E) tm kr = Inr sections
        \<and> out = new_content_head content (now E) @ sections)"
  by (auto simp: update_readme_analyzer_def split: sum.splits prod.splits)

lemma generator_run:
  "snd (update_readme_generator E) = Inr out \<longleftrightarrow>
     (\<exists>content tm kr.
        read_readme (readme E) = Inr content
        \<and> snd (analyze_terraform_modules (modules_dir E)) = Inr tm
        \<and> snd (analyze_kubernetes_resources (manifest_dir E)) = Inr kr
        \<and> out = new_content_head content (now E)
             @ generator_sections (other_str E) (visual_ok E) tm kr)"
  by (auto simp: update_readme_generator_def split: sum.splits prod.splits)

lemma analyze_project_readme [simp]:
  "analyze_project (E\<lparr>readme := r, now := t\<rparr>) = analyze_project E"
  "analyze_project (E\<lparr>readme := r\<rparr>) = analyze_project E"
  by (simp_all add: analyze_project_def split: sum.splits)


section \<open>The sample project, run\<close>

text \<open>
  Both scripts are run on the sample project by unfolding their definitions; what they
  write is the text traced by hand, for the first run and for a run on that output.
\<close>

lemmas eval_defs =
  example_env_def example_config_def example_readme_def
  update_readme_generator_def update_readme_analyzer_def analyze_project_def
  extract_details_def extract_resources_def extract_names_def extract_variables_def
  empty_details_def endswith_def is_manifest_name_def suffix_to_prefix
  resource_identifier_def instance_id_def type_instances_def
  variable_bullet_def var_type_def dict_get_def
  config_bullets_def module_doc_def generate_module_documentation_def
  file_doc_def generate_kubernetes_documentation_def analyzer_sections_def
  resource_bullet_def output_bullet_def bullet_group_def
  new_content_head_def preserved_def rstrip_def is_space_def
  MARKER_def sentinel_header_def WARNING_LINE_def MODULES_HEADER_def KUBERNETES_HEADER_def
  generator_sections_def generate_mermaid_diagram_def mermaid_lines_def
  kubernetes_subgraph_def module_subgraph_def terraform_node_def terraform_node_id_def
  replace_char_def detailed_view_def module_section_def details_group_def
  name_bullet_line_def kubernetes_section_def
  example_generator_text_def example_analyzer_text_def lit_def

lemma example_env_fields:
  "readme example_env = Inr example_readme"
  "now example_env = lit ''2024-01-01 00:00:00''"
  "example_env\<lparr>now := lit ''2024-01-01 00:00:00''\<rparr> = example_env"
  by (simp_all add: example_env_def)


lemma example_generator_run:
  "update_readme_generator (example_env\<lparr>now := ts\<rparr>)
     = ([DiagramWarning], Inr (example_generator_text ts))"
  by (simp add: eval_defs)

lemma example_analyzer_run:
  "update_readme_analyzer (example_env\<lparr>now := ts\<rparr>)
     = ([DiagramWarning], Inr (example_analyzer_text ts))"
  by (simp add: eval_defs)

lemma example_generator_rerun:
  "update_readme_generator (example_env\<lparr>readme := Inr (example_generator_text ts), now := ts'\<rparr>)
     = ([DiagramWarning], Inr (example_generator_text ts'))"
  by (simp add: eval_defs)

lemma example_analyzer_rerun:
  "update_readme_analyzer (example_env\<lparr>readme := Inr (example_analyzer_text ts), now := ts'\<rparr>)
     = ([DiagramWarning], Inr (example_analyzer_text ts'))"
  by (simp add: eval_defs)

lemma example_preserved:
  "preserved example_readme = lit ''# Demo\<newline>\<newline>Notes. \<newline>\<newline>\<newline>''"
  "rstrip (lit ''# Demo\<newline>\<newline>Notes. \<newline>\<newline>\<newline>'') = lit ''# Demo\<newline>\<newline>Notes.''"
  by (simp_all add: example_readme_def preserved_def rstrip_def is_space_def MARKER_def lit_def)

lemma example_details:
  "extract_details example_config empty_details
     = Inr \<lparr>resources = [], variables = [lit ''region''], outputs = [lit ''network_id'']\<rparr>"
  "extract_details walked_config empty_details
     = Inr \<lparr>resources = [lit ''vpc_network.main''], variables = [lit ''region''],
            outputs = [lit ''network_id'']\<rparr>"
  by (simp_all add: example_config_def walked_config_def extract_details_def extract_resources_def
        extract_names_def empty_details_def resource_identifier_def lit_def)


section \<open>The section replacer\<close>

text \<open>
  Claim C1. For every prior README content, what either script writes is: the prefix of
  the content before the first occurrence of the marker (all of it when the marker is
  absent), trimmed of trailing whitespace, then two newlines, then the marker line, the
  warning line, the timestamp line and a blank line, then the rendered sections. The
  trimmed prefix stands unchanged at the start of the output.
\<close>

theorem prefix_preservation:
  "readme E = Inr content \<Longrightarrow>
     prefix_before_marker content (preserved content)
     \<and> trimmed (preserved content) (rstrip (preserved content))
     \<and> (\<forall>out. snd (update_readme_analyzer E) = Inr out \<longrightarrow>
          (\<exists>tm kr sections.
             snd (analyze_project E) = Inr (tm, kr)
             \<and> analyzer_sections (other_str E) (visual_ok E) tm kr = Inr sections
             \<and> out = rstrip (preserved content) @ lit ''\<newline>\<newline>''
                  @ MARKER @ lit ''\<newline>'' @ WARNING_LINE
                  @ lit ''> Last updated: '' @ now E @ lit ''\<newline>\<newline>'' @ sections))
     \<and> (\<forall>out. snd (update_readme_generator E) = Inr out \<longrightarrow>
          (\<exists>tm kr.
             snd (analyze_terraform_modules (modules_dir E)) = Inr tm
             \<and> snd (analyze_kubernetes_resources (manifest_dir E)) = Inr kr
             \<and> out = rstrip (preserved content) @ lit ''\<newline>\<newline>''
                  @ MARKER @ lit ''\<newline>'' @ WARNING_LINE
                  @ lit ''> Last updated: '' @ now E @ lit ''\<newline>\<newline>''
                  @ generator_sections (other_str E) (visual_ok E) tm kr))"
  by (auto simp: prefix_before_marker_preserved trimmed_rstrip analyzer_run generator_run
        new_content_head_def sentinel_header_def)

text \<open>
  Claim C1 at the sample project: the hand-written text \<open># Demo\<close>, \<open>Notes.\<close> is kept, its
  trailing blank and newlines are replaced by two newlines.
\<close>

theorem prefix_preservation_witness:
  "readme example_env = Inr example_readme
   \<and> prefix_before_marker example_readme (lit ''# Demo\<newline>\<newline>Notes. \<newline>\<newline>\<newline>'')
   \<and> trimmed (lit ''# Demo\<newline>\<newline>Notes. \<newline>\<newline>\<newline>'') (lit ''# Demo\<newline>\<newline>Notes.'')
   \<and> snd (update_readme_analyzer example_env) = Inr (example_analyzer_text (lit ''2024-01-01 00:00:00''))
   \<and> snd (update_readme_generator example_env) = Inr (example_generator_text (lit ''2024-01-01 00:00:00''))
   \<and> (\<exists>sections. example_analyzer_text (lit ''2024-01-01 00:00:00'') =
          lit ''# Demo\<newline>\<newline>Notes.'' @ lit ''\<newline>\<newline>'' @ MARKER @ lit ''\<newline>'' @ WARNING_LINE
            @ lit ''> Last updated: '' @ lit ''2024-01-01 00:00:00'' @ lit ''\<newline>\<newline>'' @ sections)
   \<and> (\<exists>sections. example_generator_text (lit ''2024-01-01 00:00:00'') =
          lit ''# Demo\<newline>\<newline>Notes.'' @ lit ''\<newline>\<newline>'' @ MARKER @ lit ''\<newline>'' @ WARNING_LINE
            @ lit ''> Last updated: '' @ lit ''2024-01-01 00:00:00'' @ lit ''\<newline>\<newline>'' @ sections)"
proof -
  have a: "snd (update_readme_analyzer example_env) = Inr (example_analyzer_text (lit ''2024-01-01 00:00:00''))"
    using example_analyzer_run [of "lit ''2024-01-01 00:00:00''"] by (simp add: example_env_fields)
  have g: "snd (update_readme_generator example_env) = Inr (example_generator_text (lit ''2024-01-01 00:00:00''))"
    using example_generator_run [of "lit ''2024-01-01 00:00:00''"] by (simp add: example_env_fields)
  note p = prefix_preservation [OF example_env_fields(1), unfolded example_preserved example_env_fields]
  from p a have "\<exists>sections. example_analyzer_text (lit ''2024-01-01 00:00:00'') =
          lit ''# Demo\<newline>\<newline>Notes.'' @ lit ''\<newline>\<newline>'' @ MARKER @ lit ''\<newline>'' @ WARNING_LINE
            @ lit ''> Last updated: '' @ lit ''2024-01-01 00:00:00'' @ lit ''\<newline>\<newline>'' @ sections"
    by blast
  moreover from p g have "\<exists>sections. example_generator_text (lit ''2024-01-01 00:00:00'') =
          lit ''# Demo\<newline>\<newline>Notes.'' @ lit ''\<newline>\<newline>'' @ MARKER @ lit ''\<newline>'' @ WARNING_LINE
            @ lit ''> Last updated: '' @ lit ''2024-01-01 00:00:00'' @ lit ''\<newline>\<newline>'' @ sections"
    by blast
  ultimately show ?thesis using p a g example_env_fields(1) by blast
qed

lemma analyzer_rerun:
  assumes "snd (update_readme_analyzer E) = Inr out"
  shows "\<exists>content sections.
           out = new_content_head content (now E) @ sections
           \<and> (\<forall>t. snd (update_readme_analyzer (E\<lparr>readme := Inr out, now := t\<rparr>))
                    = Inr (new_content_head content t @ sections))"
proof -
  from assms obtain content tm kr sections where
    r: "snd (analyze_project E) = Inr (tm, kr)"
       "analyzer_sections (other_str E) (visual_ok E) tm kr = Inr sections"
    and out: "out = new_content_head content (now E) @ sections"
    by (auto simp: analyzer_run)
  have "snd (update_readme_analyzer (E\<lparr>readme := Inr out, now := t\<rparr>))
      = Inr (new_content_head content t @ sections)" for t
    using r by (simp add: analyzer_run out new_content_head_again)
  with out show ?thesis by blast
qed

lemma generator_rerun:
  assumes "snd (update_readme_generator E) = Inr out"
  shows "\<exists>content sections.
           out = new_content_head content (now E) @ sections
           \<and> (\<forall>t. snd (update_readme_generator (E\<lparr>readme := Inr out, now := t\<rparr>))
                    = Inr (new_content_head content t @ sections))"
proof -
  from assms obtain content tm kr where
    r: "snd (analyze_terraform_modules (modules_dir E)) = Inr tm"
       "snd (analyze_kubernetes_resources (manifest_dir E)) = Inr kr"
    and out: "out = new_content_head content (now E)
             @ generator_sections (other_str E) (visual_ok E) tm kr"
    by (auto simp: generator_run)
  have "snd (update_readme_generator (E\<lparr>readme := Inr out, now := t\<rparr>))
      = Inr (new_content_head content t @ generator_sections (other_str E) (visual_ok E) tm kr)" for t
    using r by (simp add: generator_run out new_content_head_again)
  with out show ?thesis by blast
qed

lemma new_content_head_split:
  "new_content_head content t @ sections
     = (rstrip (preserved content) @ lit ''\<newline>\<newline>'' @ MARKER @ lit ''\<newline>'' @ WARNING_LINE)
         @ lit ''> Last updated: '' @ t @ lit ''\<newline>\<newline>'' @ sections"
  by (simp add: new_content_head_def sentinel_header_def)

text \<open>
  Claim C2. Running either script on its own previous output, with the same project and
  so the same rendered sections, writes the previous content again except for the
  timestamp: with the same timestamp the output is the previous output, and with another
  one both outputs are the same text \<open>p\<close>, the \<open>Last updated\<close> line of the run, and the
  same sections.
\<close>

theorem regeneration_idempotent:
  "(snd (update_readme_analyzer E) = Inr out \<longrightarrow>
      snd (update_readme_analyzer (E\<lparr>readme := Inr out\<rparr>)) = Inr out
      \<and> (\<exists>p sections.
         out = p @ lit ''> Last updated: '' @ now E @ lit ''\<newline>\<newline>'' @ sections
         \<and> snd (update_readme_analyzer (E\<lparr>readme := Inr out, now := t\<rparr>))
             = Inr (p @ lit ''> Last updated: '' @ t @ lit ''\<newline>\<newline>'' @ sections)))
   \<and> (snd (update_readme_generator E) = Inr out' \<longrightarrow>
      snd (update_readme_generator (E\<lparr>readme := Inr out'\<rparr>)) = Inr out'
      \<and> (\<exists>p sections.
         out' = p @ lit ''> Last updated: '' @ now E @ lit ''\<newline>\<newline>'' @ sections
         \<and> snd (update_readme_generator (E\<lparr>readme := Inr out', now := t\<rparr>))
             = Inr (p @ lit ''> Last updated: '' @ t @ lit ''\<newline>\<newline>'' @ sections)))"
proof (intro conjI impI)
  assume a: "snd (update_readme_analyzer E) = Inr out"
  from analyzer_rerun [OF a] obtain content sections where
    out: "out = new_content_head content (now E) @ sections"
    and re: "\<And>t. snd (update_readme_analyzer (E\<lparr>readme := Inr out, now := t\<rparr>))
                    = Inr (new_content_head content t @ sections)"
    by blast
  from re [of "now E"] out
  show "snd (update_readme_analyzer (E\<lparr>readme := Inr out\<rparr>)) = Inr out" by simp
  from out re [of t]
  show "\<exists>p sections.
         out = p @ lit ''> Last updated: '' @ now E @ lit ''\<newline>\<newline>'' @ sections
         \<and> snd (update_readme_analyzer (E\<lparr>readme := Inr out, now := t\<rparr>))
             = Inr (p @ lit ''> Last updated: '' @ t @ lit ''\<newline>\<newline>'' @ sections)"
    unfolding new_content_head_split by blast
next
  assume a: "snd (update_readme_generator E) = Inr out'"
  from generator_rerun [OF a] obtain content sections where
    out: "out' = new_content_head content (now E) @ sections"
    and re: "\<And>t. snd (update_readme_generator (E\<lparr>readme := Inr out', now := t\<rparr>))
                    = Inr (new_content_head content t @ sections)"
    by blast
  from re [of "now E"] out
  show "snd (update_readme_generator (E\<lparr>readme := Inr out'\<rparr>)) = Inr out'" by simp
  from out re [of t]
  show "\<exists>p sections.
         out' = p @ lit ''> Last updated: '' @ now E @ lit ''\<newline>\<newline>'' @ sections
         \<and> snd (update_readme_generator (E\<lparr>readme := Inr out', now := t\<rparr>))
             = Inr (p @ lit ''> Last updated: '' @ t @ lit ''\<newline>\<newline>'' @ sections)"
    unfolding new_content_head_split by blast
qed

text \<open>
  Claim C2 at the sample project: the second run, half a year later, writes the same text
  with the new timestamp.
\<close>

theorem regeneration_idempotent_witness:
  "snd (update_readme_analyzer example_env) = Inr (example_analyzer_text (lit ''2024-01-01 00:00:00''))
   \<and> snd (update_readme_generator example_env) = Inr (example_generator_text (lit ''2024-01-01 00:00:00''))
   \<and> (\<exists>p sections.
         example_analyzer_text (lit ''2024-01-01 00:00:00'')
           = p @ lit ''> Last updated: '' @ lit ''2024-01-01 00:00:00'' @ lit ''\<newline>\<newline>'' @ sections
         \<and> snd (update_readme_analyzer (example_env\<lparr>readme := Inr (example_analyzer_text (lit ''2024-01-01 00:00:00'')),
                 now := lit ''2024-06-30 12:00:00''\<rparr>))
             = Inr (p @ lit ''> Last updated: '' @ lit ''2024-06-30 12:00:00'' @ lit ''\<newline>\<newline>'' @ sections))
   \<and> (\<exists>p sections.
         example_generator_text (lit ''2024-01-01 00:00:00'')
           = p @ lit ''> Last updated: '' @ lit ''2024-01-01 00:00:00'' @ lit ''\<newline>\<newline>'' @ sections
         \<and> snd (update_readme_generator (example_env\<lparr>readme := Inr (example_generator_text (lit ''2024-01-01 00:00:00'')),
                 now := lit ''2024-06-30 12:00:00''\<rparr>))
             = Inr (p @ lit ''> Last updated: '' @ lit ''2024-06-30 12:00:00'' @ lit ''\<newline>\<newline>'' @ sections))
   \<and> snd (update_readme_analyzer (example_env\<lparr>readme := Inr (example_analyzer_text (lit ''2024-01-01 00:00:00'')),
                 now := lit ''2024-06-30 12:00:00''\<rparr>))
        = Inr (example_analyzer_text (lit ''2024-06-30 12:00:00''))
   \<and> snd (update_readme_generator (example_env\<lparr>readme := Inr (example_generator_text (lit ''2024-01-01 00:00:00'')),
                 now := lit ''2024-06-30 12:00:00''\<rparr>))
        = Inr (example_generator_text (lit ''2024-06-30 12:00:00''))"
proof -
  have a: "snd (update_readme_analyzer example_env) = Inr (example_analyzer_text (lit ''2024-01-01 00:00:00''))"
    using example_analyzer_run [of "lit ''2024-01-01 00:00:00''"] by (simp add: example_env_fields)
  have g: "snd (update_readme_generator example_env) = Inr (example_generator_text (lit ''2024-01-01 00:00:00''))"
    using example_generator_run [of "lit ''2024-01-01 00:00:00''"] by (simp add: example_env_fields)
  note r = regeneration_idempotent
    [of example_env "example_analyzer_text (lit ''2024-01-01 00:00:00'')" "lit ''2024-06-30 12:00:00''"
        "example_generator_text (lit ''2024-01-01 00:00:00'')", unfolded example_env_fields]
  show ?thesis
    using r a g by (simp add: example_analyzer_rerun example_generator_rerun)
qed

text \<open>
  Claim C7, amended. When \<open>README.md\<close> does not exist (\<open>open\<close> raises
  \<open>FileNotFoundError\<close>), the read step raises nothing and the run goes on exactly as if the
  prior content were the default title followed by a blank line, which is then the
  preserved prefix. Any other failure of the read is raised again by the read step.
\<close>

theorem read_readme_missing_only:
  "read_readme (Inl FileNotFoundError) = Inr DEFAULT_TITLE
   \<and> (e \<noteq> FileNotFoundError \<longrightarrow> read_readme (Inl e) = Inl e)
   \<and> (readme E = Inl FileNotFoundError \<longrightarrow>
        update_readme_analyzer E = update_readme_analyzer (E\<lparr>readme := Inr DEFAULT_TITLE\<rparr>)
        \<and> update_readme_generator E = update_readme_generator (E\<lparr>readme := Inr DEFAULT_TITLE\<rparr>))
   \<and> new_content_head DEFAULT_TITLE t = DEFAULT_TITLE @ sentinel_header t"
proof (intro conjI impI)
  show "read_readme (Inl FileNotFoundError) = Inr DEFAULT_TITLE" by simp
  show "read_readme (Inl e) = Inl e" if "e \<noteq> FileNotFoundError"
    using that by (cases e) simp_all
  show "update_readme_analyzer E = update_readme_analyzer (E\<lparr>readme := Inr DEFAULT_TITLE\<rparr>)"
    if "readme E = Inl FileNotFoundError"
    using that by (simp add: update_readme_analyzer_def split: sum.splits prod.splits)
  show "update_readme_generator E = update_readme_generator (E\<lparr>readme := Inr DEFAULT_TITLE\<rparr>)"
    if "readme E = Inl FileNotFoundError"
    using that by (simp add: update_readme_generator_def split: sum.splits prod.splits)
  show "new_content_head DEFAULT_TITLE t = DEFAULT_TITLE @ sentinel_header t"
    by (simp add: new_content_head_def preserved_def rstrip_def is_space_def DEFAULT_TITLE_def
          MARKER_def lit_def)
qed

text \<open>
  Claim C7, amended, at the sample project without a README, and at a README that is a
  directory.
\<close>

theorem read_readme_missing_only_witness:
  "IsADirectoryError \<noteq> FileNotFoundError
   \<and> read_readme (Inl IsADirectoryError) = Inl IsADirectoryError
   \<and> readme (example_env\<lparr>readme := Inl FileNotFoundError\<rparr>) = Inl FileNotFoundError
   \<and> update_readme_analyzer (example_env\<lparr>readme := Inl FileNotFoundError\<rparr>)
       = update_readme_analyzer (example_env\<lparr>readme := Inr DEFAULT_TITLE\<rparr>)
   \<and> update_readme_generator (example_env\<lparr>readme := Inl FileNotFoundError\<rparr>)
       = update_readme_generator (example_env\<lparr>readme := Inr DEFAULT_TITLE\<rparr>)"
  using read_readme_missing_only [of IsADirectoryError "example_env\<lparr>readme := Inl FileNotFoundError\<rparr>"]
  by simp

text \<open>
  Claim C7 as stated fails: a README that exists and cannot be read for lack of
  permission ends the run of both scripts with \<open>PermissionError\<close>.
\<close>

theorem unreadable_readme_propagates:
  "read_readme (Inl PermissionError) = Inl PermissionError
   \<and> update_readme_analyzer (example_env\<lparr>readme := Inl PermissionError\<rparr>) = ([], Inl PermissionError)
   \<and> snd (update_readme_generator (example_env\<lparr>readme := Inl PermissionError\<rparr>)) = Inl PermissionError"
  by (simp add: update_readme_analyzer_def update_readme_generator_def
        example_env_def example_config_def extract_details_def extract_resources_def
        extract_names_def empty_details_def endswith_def suffix_to_prefix lit_def)


section \<open>Resource identifiers\<close>











text \<open>
  The shapes are those the code walks. A type mapped directly to a name-keyed mapping,
  with no sequence of instances between them, is not walked: the mapping branch iterates
  over the names and raises, the sequence branch skips the item.
\<close>

lemma name_keyed_mapping_not_walked:
  "extract_resources fmt [(lit ''resource'', PDict [(t, PDict ((a, x) # d))])] = Inl AttributeError
   \<and> extract_resources fmt [(lit ''resource'', PList [PDict [(t, PDict ((a, x) # d))]])] = Inr []"
  by (simp add: extract_resources_def type_instances_def instance_id_def)



section \<open>Tolerance of malformed files\<close>

lemma parse_failed:
  "\<not> is_loaded bad \<Longrightarrow> parse_terraform_file p bad = ([TerraformWarning p], [])"
  by (cases bad) simp_all

lemma analyze_failed:
  "\<not> is_loaded bad \<Longrightarrow> analyze_terraform_file p bad = ([TerraformWarning p], [])"
  by (cases bad) simp_all

lemma extract_details_empty: "extract_details [] m = Inr m"
  by (simp add: extract_details_def extract_resources_def extract_names_def)

lemma config_bullets_empty: "config_bullets other [] = Inr ([], [], [])"
  by (simp add: config_bullets_def extract_resources_def extract_names_def extract_variables_def)

lemma module_bullets_skip_empty:
  "module_bullets other (cs @ [] # cs') = module_bullets other (cs @ cs')"
  by (induction cs) (auto simp: config_bullets_empty split: sum.splits)

lemma extract_details_resources:
  "extract_details config empty_details = Inr d \<Longrightarrow>
     extract_resources resource_identifier config = Inr (resources d)"
  by (auto simp: extract_details_def empty_details_def split: sum.splits)

text \<open>The files that fail to load leave the record of a module as it would be without them.\<close>

lemma analyze_module_files_loaded:
  "snd (analyze_module_files files m)
     = snd (analyze_module_files (filter (\<lambda>f. is_loaded (snd (snd f))) files) m)"
proof (induction files arbitrary: m)
  case Nil
  show ?case by simp
next
  case (Cons f files)
  obtain nm pth outcome where f: "f = (nm, pth, outcome)" by (cases f)
  show ?case
  proof (cases "is_loaded outcome")
    case True
    then obtain config where "outcome = Loaded config" by (cases outcome) simp_all
    with Cons.IH f show ?thesis by (simp split: sum.splits)
  next
    case False
    then have "parse_terraform_file pth outcome = ([TerraformWarning pth], [])"
      by (rule parse_failed)
    with Cons.IH f False show ?thesis by (simp add: extract_details_empty)
  qed
qed

lemma module_bullets_single: "module_bullets other [config] = config_bullets other config"
  by (simp split: sum.splits)

lemma config_bullets_resources:
  "config_bullets other config = Inr (rs, vs, os) \<Longrightarrow>
     extract_resources resource_bullet config = Inr rs"
  by (auto simp: config_bullets_def split: sum.splits)

lemma module_documentation_single:
  "module_bullets other configs = Inr (rs, vs, os) \<Longrightarrow>
     generate_module_documentation other [(module, configs)]
       = Inr (MODULES_HEADER @ lit ''### '' @ module @ lit ''\<newline>\<newline>''
               @ bullet_group (lit ''**Resources:**\<newline>'') rs
               @ bullet_group (lit ''**Variables:**\<newline>'') vs
               @ bullet_group (lit ''**Outputs:**\<newline>'') os)"
  by (simp add: generate_module_documentation_def module_doc_def)

text \<open>
  Claim C6. A file whose load raises contributes the empty mapping and one warning, and
  the other files are still extracted: a module with a well-formed file and a malformed
  one, in either order, gets exactly the record of the well-formed file, with its
  resources, and the analysis returns instead of raising. In \<open>update_readme.py\<close> the
  malformed file is an empty config among those of the module; the bullets of the module
  are those extracted from the well-formed file alone, its resources among them, and
  the module text is made of these.
\<close>

theorem malformed_file_tolerated:
  "endswith f1 (lit ''.tf'') \<and> endswith f2 (lit ''.tf'') \<and> \<not> is_loaded bad
     \<and> extract_details config empty_details = Inr d
   \<longrightarrow>
     parse_terraform_file p2 bad = ([TerraformWarning p2], [])
     \<and> analyze_terraform_file p2 bad = ([TerraformWarning p2], [])
     \<and> analyze_module_files [(f1, p1, Loaded config), (f2, p2, bad)] empty_details
         = ([TerraformWarning p2], Inr d)
     \<and> analyze_module_files [(f2, p2, bad), (f1, p1, Loaded config)] empty_details
         = ([TerraformWarning p2], Inr d)
     \<and> analyze_terraform_modules (Listed [(module, Some (Listed [(f1, p1, Loaded config), (f2, p2, bad)]))])
         = ([TerraformWarning p2], Inr [(module, d)])
     \<and> extract_resources resource_identifier config = Inr (resources d)
     \<and> analyze_walk [(f1, p1, module, Loaded config), (f2, p2, module, bad)] []
         = ([TerraformWarning p2], [(module, [config, []])])
     \<and> analyze_walk [(f2, p2, module, bad), (f1, p1, module, Loaded config)] []
         = ([TerraformWarning p2], [(module, [[], config])])
     \<and> module_bullets other [config, []] = config_bullets other config
     \<and> module_bullets other [[], config] = config_bullets other config
     \<and> (\<forall>rs vs os. config_bullets other config = Inr (rs, vs, os) \<longrightarrow>
           extract_resources resource_bullet config = Inr rs
           \<and> generate_module_documentation other [(module, [config, []])]
               = Inr (MODULES_HEADER @ lit ''### '' @ module @ lit ''\<newline>\<newline>''
                       @ bullet_group (lit ''**Resources:**\<newline>'') rs
                       @ bullet_group (lit ''**Variables:**\<newline>'') vs
                       @ bullet_group (lit ''**Outputs:**\<newline>'') os)
           \<and> generate_module_documentation other [(module, [[], config])]
               = Inr (MODULES_HEADER @ lit ''### '' @ module @ lit ''\<newline>\<newline>''
                       @ bullet_group (lit ''**Resources:**\<newline>'') rs
                       @ bullet_group (lit ''**Variables:**\<newline>'') vs
                       @ bullet_group (lit ''**Outputs:**\<newline>'') os))
     \<and> generate_module_documentation other [(module, [config, []])]
         = generate_module_documentation other [(module, [config])]
     \<and> generate_module_documentation other [(module, [[], config])]
         = generate_module_documentation other [(module, [config])]"
proof (intro impI conjI allI)
  assume h: "endswith f1 (lit ''.tf'') \<and> endswith f2 (lit ''.tf'') \<and> \<not> is_loaded bad
     \<and> extract_details config empty_details = Inr d"
  then have f1: "endswith f1 (lit ''.tf'')" and f2: "endswith f2 (lit ''.tf'')"
    and bad: "\<not> is_loaded bad" and d: "extract_details config empty_details = Inr d"
    by simp_all
  note p = parse_failed [OF bad] analyze_failed [OF bad]
  show "parse_terraform_file p2 bad = ([TerraformWarning p2], [])" by (rule p)
  show "analyze_terraform_file p2 bad = ([TerraformWarning p2], [])" by (rule p)
  show a: "analyze_module_files [(f1, p1, Loaded config), (f2, p2, bad)] empty_details
         = ([TerraformWarning p2], Inr d)"
    using f1 f2 d by (simp add: p extract_details_empty)
  show "analyze_module_files [(f2, p2, bad), (f1, p1, Loaded config)] empty_details
         = ([TerraformWarning p2], Inr d)"
    using f1 f2 d by (simp add: p extract_details_empty)
  show "analyze_terraform_modules (Listed [(module, Some (Listed [(f1, p1, Loaded config), (f2, p2, bad)]))])
         = ([TerraformWarning p2], Inr [(module, d)])"
    using a by (simp del: analyze_module_files.simps)
  show "extract_resources resource_identifier config = Inr (resources d)"
    by (rule extract_details_resources [OF d])
  show "analyze_walk [(f1, p1, module, Loaded config), (f2, p2, module, bad)] []
         = ([TerraformWarning p2], [(module, [config, []])])"
    using f1 f2 by (simp add: p)
  show "analyze_walk [(f2, p2, module, bad), (f1, p1, module, Loaded config)] []
         = ([TerraformWarning p2], [(module, [[], config])])"
    using f1 f2 by (simp add: p)
next
  show m1: "module_bullets other [config, []] = config_bullets other config"
    using module_bullets_skip_empty [of other "[config]" "[]"]
    by (simp add: module_bullets_single del: module_bullets.simps)
  show m2: "module_bullets other [[], config] = config_bullets other config"
    using module_bullets_skip_empty [of other "[]" "[config]"]
    by (simp add: module_bullets_single del: module_bullets.simps)
  have md1: "module_doc other (module, [config, []]) = module_doc other (module, [config])"
    by (simp add: module_doc_def m1 module_bullets_single split: sum.splits prod.splits del: module_bullets.simps)
  have md2: "module_doc other (module, [[], config]) = module_doc other (module, [config])"
    by (simp add: module_doc_def m2 module_bullets_single split: sum.splits prod.splits del: module_bullets.simps)
  show "generate_module_documentation other [(module, [config, []])]
         = generate_module_documentation other [(module, [config])]"
    by (simp add: generate_module_documentation_def md1)
  show "generate_module_documentation other [(module, [[], config])]
         = generate_module_documentation other [(module, [config])]"
    by (simp add: generate_module_documentation_def md2)
  fix rs vs os
  assume c: "config_bullets other config = Inr (rs, vs, os)"
  show "extract_resources resource_bullet config = Inr rs"
    by (rule config_bullets_resources [OF c])
  show "generate_module_documentation other [(module, [config, []])]
               = Inr (MODULES_HEADER @ lit ''### '' @ module @ lit ''\<newline>\<newline>''
                       @ bullet_group (lit ''**Resources:**\<newline>'') rs
                       @ bullet_group (lit ''**Variables:**\<newline>'') vs
                       @ bullet_group (lit ''**Outputs:**\<newline>'') os)"
    using c m1 by (intro module_documentation_single) simp
  show "generate_module_documentation other [(module, [[], config])]
               = Inr (MODULES_HEADER @ lit ''### '' @ module @ lit ''\<newline>\<newline>''
                       @ bullet_group (lit ''**Resources:**\<newline>'') rs
                       @ bullet_group (lit ''**Variables:**\<newline>'') vs
                       @ bullet_group (lit ''**Outputs:**\<newline>'') os)"
    using c m2 by (intro module_documentation_single) simp
qed

lemma walked_bullets:
  "config_bullets other walked_config
     = Inr ([lit ''- `vpc_network.main`''], [lit ''- `region` (string)''], [lit ''- `network_id`''])"
  "config_bullets other example_config
     = Inr ([], [lit ''- `region` (string)''], [lit ''- `network_id`''])"
  by (simp_all add: config_bullets_def walked_config_def example_config_def extract_resources_def
        extract_variables_def extract_names_def variable_bullet_def var_type_def dict_get_def
        resource_bullet_def output_bullet_def lit_def)

text \<open>
  Claim C6 at a module with \<open>main.tf\<close> and a second file \<open>broken.tf\<close> that does not
  parse, once with the config of \<open>main.tf\<close> as the parser returns it and once with its
  resource block nested as the loops walk it: what is extracted from \<open>main.tf\<close> is what
  the module gets in both scripts. At the sample project with \<open>broken.tf\<close> added, both
  scripts log the warning and write the README of the sample project.
\<close>

theorem malformed_file_tolerated_witness:
  "endswith (lit ''main.tf'') (lit ''.tf'') \<and> endswith (lit ''broken.tf'') (lit ''.tf'')
   \<and> \<not> is_loaded (ParseFailed :: pydict loaded)
   \<and> extract_details example_config empty_details
       = Inr \<lparr>resources = [], variables = [lit ''region''], outputs = [lit ''network_id'']\<rparr>
   \<and> analyze_terraform_modules (Listed [(lit ''network'', Some (Listed
         [(lit ''main.tf'', lit ''modules/network/main.tf'', Loaded example_config),
          (lit ''broken.tf'', lit ''modules/network/broken.tf'', ParseFailed)]))])
       = ([TerraformWarning (lit ''modules/network/broken.tf'')],
          Inr [(lit ''network'', \<lparr>resources = [], variables = [lit ''region''],
              outputs = [lit ''network_id'']\<rparr>)])
   \<and> analyze_walk [(lit ''broken.tf'', lit ''modules/network/broken.tf'', lit ''network'', ParseFailed),
          (lit ''main.tf'', lit ''modules/network/main.tf'', lit ''network'', Loaded example_config)] []
       = ([TerraformWarning (lit ''modules/network/broken.tf'')],
          [(lit ''network'', [[], example_config])])
   \<and> module_bullets (\<lambda>v. []) [example_config, []]
       = Inr ([], [lit ''- `region` (string)''], [lit ''- `network_id`''])
   \<and> module_bullets (\<lambda>v. []) [[], example_config]
       = Inr ([], [lit ''- `region` (string)''], [lit ''- `network_id`''])
   \<and> generate_module_documentation (\<lambda>v. []) [(lit ''network'', [[], example_config])]
       = Inr (MODULES_HEADER @ lit ''### network\<newline>\<newline>''
               @ lit ''**Variables:**\<newline>- `region` (string)\<newline>\<newline>''
               @ lit ''**Outputs:**\<newline>- `network_id`\<newline>\<newline>'')
   \<and> extract_details walked_config empty_details
       = Inr \<lparr>resources = [lit ''vpc_network.main''], variables = [lit ''region''],
              outputs = [lit ''network_id'']\<rparr>
   \<and> analyze_terraform_modules (Listed [(lit ''network'', Some (Listed
         [(lit ''main.tf'', lit ''modules/network/main.tf'', Loaded walked_config),
          (lit ''broken.tf'', lit ''modules/network/broken.tf'', ParseFailed)]))])
       = ([TerraformWarning (lit ''modules/network/broken.tf'')],
          Inr [(lit ''network'', \<lparr>resources = [lit ''vpc_network.main''], variables = [lit ''region''],
              outputs = [lit ''network_id'']\<rparr>)])
   \<and> extract_resources resource_identifier walked_config = Inr [lit ''vpc_network.main'']
   \<and> module_bullets (\<lambda>v. []) [walked_config, []]
       = Inr ([lit ''- `vpc_network.main`''], [lit ''- `region` (string)''], [lit ''- `network_id`''])
   \<and> module_bullets (\<lambda>v. []) [[], walked_config]
       = Inr ([lit ''- `vpc_network.main`''], [lit ''- `region` (string)''], [lit ''- `network_id`''])
   \<and> extract_resources resource_bullet walked_config = Inr [lit ''- `vpc_network.main`'']
   \<and> update_readme_generator (example_env\<lparr>modules_dir := Listed [(lit ''network'', Some (Listed
         [(lit ''main.tf'', lit ''modules/network/main.tf'', Loaded example_config),
          (lit ''broken.tf'', lit ''modules/network/broken.tf'', ParseFailed)]))]\<rparr>)
       = ([TerraformWarning (lit ''modules/network/broken.tf''), DiagramWarning],
          Inr (example_generator_text (lit ''2024-01-01 00:00:00'')))
   \<and> update_readme_analyzer (example_env\<lparr>walk :=
         [(lit ''broken.tf'', lit ''modules/network/broken.tf'', lit ''network'', ParseFailed),
          (lit ''main.tf'', lit ''modules/network/main.tf'', lit ''network'', Loaded example_config)]\<rparr>)
       = ([TerraformWarning (lit ''modules/network/broken.tf''), DiagramWarning],
          Inr (example_analyzer_text (lit ''2024-01-01 00:00:00'')))"
proof -
  have g: "update_readme_generator (example_env\<lparr>modules_dir := Listed [(lit ''network'', Some (Listed
         [(lit ''main.tf'', lit ''modules/network/main.tf'', Loaded example_config),
          (lit ''broken.tf'', lit ''modules/network/broken.tf'', ParseFailed)]))]\<rparr>)
       = ([TerraformWarning (lit ''modules/network/broken.tf''), DiagramWarning],
          Inr (example_generator_text (lit ''2024-01-01 00:00:00'')))"
    by (simp add: eval_defs)
  have a: "update_readme_analyzer (example_env\<lparr>walk :=
         [(lit ''broken.tf'', lit ''modules/network/broken.tf'', lit ''network'', ParseFailed),
          (lit ''main.tf'', lit ''modules/network/main.tf'', lit ''network'', Loaded example_config)]\<rparr>)
       = ([TerraformWarning (lit ''modules/network/broken.tf''), DiagramWarning],
          Inr (example_analyzer_text (lit ''2024-01-01 00:00:00'')))"
    by (simp add: eval_defs)
  have e: "endswith (lit ''main.tf'') (lit ''.tf'')" "endswith (lit ''broken.tf'') (lit ''.tf'')"
    by (simp_all add: endswith_def suffix_to_prefix lit_def)
  have l: "\<not> is_loaded (ParseFailed :: pydict loaded)" by simp
  have b: "bullet_group (lit ''**Resources:**\<newline>'') [] = []"
    "bullet_group (lit ''**Variables:**\<newline>'') [lit ''- `region` (string)'']
       = lit ''**Variables:**\<newline>- `region` (string)\<newline>\<newline>''"
    "bullet_group (lit ''**Outputs:**\<newline>'') [lit ''- `network_id`'']
       = lit ''**Outputs:**\<newline>- `network_id`\<newline>\<newline>''"
    by (simp_all add: bullet_group_def join_Cons lit_def)
  note s = malformed_file_tolerated
      [of "lit ''main.tf''" "lit ''broken.tf''" ParseFailed example_config
        "\<lparr>resources = [], variables = [lit ''region''], outputs = [lit ''network_id'']\<rparr>"
        "lit ''modules/network/broken.tf''" "lit ''modules/network/main.tf''" "lit ''network''"
        "\<lambda>v. []", unfolded walked_bullets]
  note t = malformed_file_tolerated
      [of "lit ''main.tf''" "lit ''broken.tf''" ParseFailed walked_config
        "\<lparr>resources = [lit ''vpc_network.main''], variables = [lit ''region''], outputs = [lit ''network_id'']\<rparr>"
        "lit ''modules/network/broken.tf''" "lit ''modules/network/main.tf''" "lit ''network''"
        "\<lambda>v. []", unfolded walked_bullets]
  have s': "analyze_terraform_modules (Listed [(lit ''network'', Some (Listed
         [(lit ''main.tf'', lit ''modules/network/main.tf'', Loaded example_config),
          (lit ''broken.tf'', lit ''modules/network/broken.tf'', ParseFailed)]))])
       = ([TerraformWarning (lit ''modules/network/broken.tf'')],
          Inr [(lit ''network'', \<lparr>resources = [], variables = [lit ''region''],
              outputs = [lit ''network_id'']\<rparr>)])
   \<and> analyze_walk [(lit ''broken.tf'', lit ''modules/network/broken.tf'', lit ''network'', ParseFailed),
          (lit ''main.tf'', lit ''modules/network/main.tf'', lit ''network'', Loaded example_config)] []
       = ([TerraformWarning (lit ''modules/network/broken.tf'')],
          [(lit ''network'', [[], example_config])])
   \<and> module_bullets (\<lambda>v. []) [example_config, []]
       = Inr ([], [lit ''- `region` (string)''], [lit ''- `network_id`''])
   \<and> module_bullets (\<lambda>v. []) [[], example_config]
       = Inr ([], [lit ''- `region` (string)''], [lit ''- `network_id`''])
   \<and> generate_module_documentation (\<lambda>v. []) [(lit ''network'', [[], example_config])]
       = Inr (MODULES_HEADER @ lit ''### network\<newline>\<newline>''
               @ lit ''**Variables:**\<newline>- `region` (string)\<newline>\<newline>''
               @ lit ''**Outputs:**\<newline>- `network_id`\<newline>\<newline>'')"
    using s e l example_details(1)
    by (simp add: b lit_append [symmetric] del: analyze_module_files.simps analyze_walk.simps
          analyze_module_entries.simps analyze_terraform_modules.simps module_bullets.simps)
  have t': "analyze_terraform_modules (Listed [(lit ''network'', Some (Listed
         [(lit ''main.tf'', lit ''modules/network/main.tf'', Loaded walked_config),
          (lit ''broken.tf'', lit ''modules/network/broken.tf'', ParseFailed)]))])
       = ([TerraformWarning (lit ''modules/network/broken.tf'')],
          Inr [(lit ''network'', \<lparr>resources = [lit ''vpc_network.main''], variables = [lit ''region''],
              outputs = [lit ''network_id'']\<rparr>)])
   \<and> extract_resources resource_identifier walked_config = Inr [lit ''vpc_network.main'']
   \<and> module_bullets (\<lambda>v. []) [walked_config, []]
       = Inr ([lit ''- `vpc_network.main`''], [lit ''- `region` (string)''], [lit ''- `network_id`''])
   \<and> module_bullets (\<lambda>v. []) [[], walked_config]
       = Inr ([lit ''- `vpc_network.main`''], [lit ''- `region` (string)''], [lit ''- `network_id`''])
   \<and> extract_resources resource_bullet walked_config = Inr [lit ''- `vpc_network.main`'']"
    using t e l example_details(2)
    by (simp del: analyze_module_files.simps analyze_walk.simps analyze_module_entries.simps
             analyze_terraform_modules.simps module_bullets.simps)
  from s' t' e l example_details g a show ?thesis by blast
qed


section \<open>Manifest records\<close>

lemma manifest_record_mapping:
  "map_of r (lit ''metadata'') = None \<or> map_of r (lit ''metadata'') = Some (PDict m) \<Longrightarrow>
     manifest_record (PDict r)
       = Inr [(dict_get r (lit ''kind'') (PStr (lit ''Unknown'')),
               dict_get (case map_of r (lit ''metadata'') of Some (PDict m') \<Rightarrow> m' | _ \<Rightarrow> [])
                 (lit ''name'') (PStr (lit ''unnamed'')))]"
  by (auto simp: dict_get_def)

lemma manifest_record_other: "\<not> is_dict v \<Longrightarrow> manifest_record v = Inr []"
  by (cases v) simp_all

text \<open>
  Claim C5 fails on the code at a mapping document whose \<open>metadata\<close> is null: the second
  \<open>get\<close> is applied to \<open>None\<close> and raises \<open>AttributeError\<close>. In \<open>update_readme.py\<close>
  this ends the run; in \<open>generate_diagrams.py\<close> the exception is caught and every record
  of the file is lost, also those of its well-formed documents.
\<close>

theorem null_metadata_raises:
  "manifest_record null_metadata_document = Inl AttributeError
   \<and> document_bullet other null_metadata_document = Inl AttributeError
   \<and> snd (update_readme_analyzer (example_env\<lparr>manifest_dir :=
        Some (Listed [(lit ''pod.yaml'', lit ''kubernetes/manifests/pod.yaml'', Loaded [null_metadata_document])])\<rparr>))
       = Inl AttributeError
   \<and> analyze_kubernetes_resources
        (Some (Listed [(lit ''pod.yaml'', lit ''kubernetes/manifests/pod.yaml'',
           Loaded [example_manifest, null_metadata_document])]))
       = ([KubernetesWarning (lit ''pod.yaml'')], Inr [])"
  by (simp add: null_metadata_document_def example_manifest_def eval_defs)


section \<open>The Mermaid diagram\<close>

text \<open>
  Claim C10. Whatever was discovered, also nothing at all, the diagram starts with the
  same four lines: the \<open>mermaid\<close> fence, \<open>graph TB\<close>, \<open>subgraph Infrastructure\<close> and the
  hardcoded edge from the GKE cluster to the VPC network. This holds of the list of lines
  and of the joined text.
\<close>

theorem mermaid_preamble:
  "take 4 (mermaid_lines other tm kr) =
     [lit ''```mermaid'', lit ''graph TB'', lit ''    subgraph Infrastructure'',
      lit ''    A[GKE Cluster] --> B[VPC Network]'']
   \<and> prefix (lit ''```mermaid\<newline>graph TB\<newline>    subgraph Infrastructure\<newline>    A[GKE Cluster] --> B[VPC Network]\<newline>'')
        (generate_mermaid_diagram other tm kr)"
proof
  show "take 4 (mermaid_lines other tm kr) =
     [lit ''```mermaid'', lit ''graph TB'', lit ''    subgraph Infrastructure'',
      lit ''    A[GKE Cluster] --> B[VPC Network]'']"
    by (simp add: mermaid_lines_def)
next
  define R where
    "R = concat (map module_subgraph tm) @ kubernetes_subgraph other kr @ [lit ''end'', lit ''```'']"
  have R: "R \<noteq> []" by (simp add: R_def)
  have "generate_mermaid_diagram other tm kr =
      lit ''```mermaid'' @ lit ''\<newline>'' @ lit ''graph TB'' @ lit ''\<newline>''
        @ lit ''    subgraph Infrastructure'' @ lit ''\<newline>''
        @ lit ''    A[GKE Cluster] --> B[VPC Network]'' @ lit ''\<newline>'' @ join (lit ''\<newline>'') R"
    using R by (simp add: generate_mermaid_diagram_def mermaid_lines_def R_def [symmetric] join_Cons)
  then show "prefix (lit ''```mermaid\<newline>graph TB\<newline>    subgraph Infrastructure\<newline>    A[GKE Cluster] --> B[VPC Network]\<newline>'')
        (generate_mermaid_diagram other tm kr)"
    by (simp add: lit_def)
qed

text \<open>The same at the empty project, where the preamble is followed by the two closing lines.\<close>

theorem mermaid_preamble_witness:
  "prefix (lit ''```mermaid\<newline>graph TB\<newline>    subgraph Infrastructure\<newline>    A[GKE Cluster] --> B[VPC Network]\<newline>'')
     (generate_mermaid_diagram (\<lambda>v. []) [] [])
   \<and> generate_mermaid_diagram (\<lambda>v. []) [] [] =
     lit ''```mermaid\<newline>graph TB\<newline>    subgraph Infrastructure\<newline>    A[GKE Cluster] --> B[VPC Network]\<newline>end\<newline>```''"
  using mermaid_preamble [of "\<lambda>v. []" "[]" "[]"]
  by (simp add: generate_mermaid_diagram_def mermaid_lines_def kubernetes_subgraph_def lit_def)

subsection \<open>Node identifiers\<close>

lemma terraform_node_id_clean:
  "of_char (CHR ''.'') \<notin> set (terraform_node_id module resource)
   \<and> of_char (CHR ''-'') \<notin> set (terraform_node_id module resource)"
  by (auto simp: terraform_node_id_def replace_char_def)

lemma k8s_node_id_no_hyphen: "of_char (CHR ''-'') \<notin> set (k8s_node_id other r)"
  by (auto simp: k8s_node_id_def replace_char_def)

text \<open>
  Claim C9 fails on the code for Kubernetes nodes: line 129 replaces \<open>-\<close> only, where
  line 120 replaces \<open>.\<close> and \<open>-\<close>. The ConfigMap named \<open>app.config\<close> gets the node
  identifier \<open>k8s_ConfigMap_app.config\<close>, which contains a dot.
\<close>

theorem k8s_node_id_keeps_dot:
  "analyze_kubernetes_resources
      (Some (Listed [(lit ''app.yaml'', lit ''kubernetes/manifests/app.yaml'', Loaded [example_manifest])]))
     = ([], Inr [(lit ''app.yaml'', [(PStr (lit ''ConfigMap''), PStr (lit ''app.config''))])])
   \<and> k8s_node_id other (PStr (lit ''ConfigMap''), PStr (lit ''app.config'')) = lit ''k8s_ConfigMap_app.config''
   \<and> of_char (CHR ''.'') \<in> set (k8s_node_id other (PStr (lit ''ConfigMap''), PStr (lit ''app.config'')))
   \<and> mermaid_lines other [] [(lit ''app.yaml'', [(PStr (lit ''ConfigMap''), PStr (lit ''app.config''))])]
       = [lit ''```mermaid'', lit ''graph TB'', lit ''    subgraph Infrastructure'',
          lit ''    A[GKE Cluster] --> B[VPC Network]'', lit ''    subgraph Kubernetes'',
          lit ''        k8s_ConfigMap_app.config[ConfigMap/app.config]'', lit ''    end'',
          lit ''end'', lit ''```'']"
  by (simp add: example_manifest_def is_manifest_name_def endswith_def suffix_to_prefix dict_get_def
        k8s_node_id_def replace_char_def mermaid_lines_def kubernetes_subgraph_def k8s_node_def lit_def)


section \<open>Where the two scripts differ\<close>

subsection \<open>The Kubernetes section without manifests\<close>






subsection \<open>Variables and their type annotation\<close>





end
